theory Spec2Isabelle
  imports Main "HOL-Library.Sublist" "HOL-Library.Word" "HOL-Library.Monad_Syntax"
begin

section \<open>Go values used by \<open>internal/util/testutil/pg.go\<close>\<close>

subsection \<open>Strings\<close>

text \<open>
  A Go string is a sequence of bytes, and \<open>len\<close> counts bytes; \<open>string\<close> (a list of
  8-bit characters) is the same thing.

  \<open>strings.ToLower\<close> has two paths. A string of ASCII bytes only is lowered byte by
  byte (\<open>c += 'a' - 'A'\<close> for \<open>'A' <= c <= 'Z'\<close>, that is 65 to 90), and returned as it
  is when it has no upper-case letter. Any other string goes through
  \<open>strings.Map(unicode.ToLower, s)\<close>, which needs the Unicode tables of the standard
  library: that path is the parameter \<open>mapLower\<close>, and every theorem below holds
  whatever it computes.
\<close>

definition isASCII :: "string \<Rightarrow> bool" where
  "isASCII s = list_all (\<lambda>c. (of_char c :: nat) < 128) s"

definition isUpper :: "char \<Rightarrow> bool" where
  "isUpper c = (65 \<le> (of_char c :: nat) \<and> (of_char c :: nat) \<le> 90)"

definition hasUpper :: "string \<Rightarrow> bool" where
  "hasUpper s = list_ex isUpper s"

definition lower_byte :: "char \<Rightarrow> char" where
  "lower_byte c = (if isUpper c then char_of ((of_char c :: nat) + 32) else c)"

definition ToLower :: "(string \<Rightarrow> string) \<Rightarrow> string \<Rightarrow> string" where
  "ToLower mapLower s =
     (if isASCII s then (if \<not> hasUpper s then s else map lower_byte s)
      else mapLower s)"

text \<open>
  \<open>strings.ReplaceAll(s, old, new)\<close> for a non-empty \<open>old\<close>: the occurrences of \<open>old\<close>
  are found from the left and do not overlap. (The source calls it with \<open>"/"\<close> and
  \<open>" "\<close>; the empty pattern, which matches between UTF-8 sequences, has no equation.)
\<close>

fun ReplaceAll :: "string \<Rightarrow> string \<Rightarrow> string \<Rightarrow> string" where
  "ReplaceAll [] (c # cs) new = []"
| "ReplaceAll (x # xs) (c # cs) new =
     (if prefix (c # cs) (x # xs)
      then new @ ReplaceAll (drop (length (c # cs)) (x # xs)) (c # cs) new
      else x # ReplaceAll xs (c # cs) new)"

subsection \<open>Errors\<close>

text \<open>
  An \<open>error\<close> is an interface value; the ones of this program are pointers
  (\<open>errors.New\<close>, \<open>fmt.Errorf\<close>, \<open>*pgconn.PgError\<close>). \<open>GoError p m c\<close> is the error
  object at address \<open>p\<close>, with message \<open>m\<close> and, when it wraps another error
  (\<open>fmt.Errorf("...: %w", err)\<close>), that error \<open>c\<close>. The nil error is \<open>None\<close>.

  Go's \<open>==\<close> on two such values compares the pointers (\<open>go_eq\<close>); \<open>errors.Is\<close> follows
  the chain of wrapped errors and compares each link with \<open>==\<close>.
\<close>

datatype go_error = GoError (err_ptr: nat) (err_msg: string) (err_unwrap: "go_error option")

definition go_eq :: "go_error \<Rightarrow> go_error \<Rightarrow> bool" where
  "go_eq a b = (err_ptr a = err_ptr b)"

text \<open>\<open>err == target\<close> for an \<open>err\<close> that may be nil and a \<open>target\<close> that is not.\<close>

definition err_is :: "go_error option \<Rightarrow> go_error \<Rightarrow> bool" where
  "err_is err target = (case err of None \<Rightarrow> False | Some e \<Rightarrow> go_eq e target)"

fun errors_Is :: "go_error \<Rightarrow> go_error \<Rightarrow> bool" where
  "errors_Is (GoError p m c) target =
     (go_eq (GoError p m c) target \<or>
      (case c of None \<Rightarrow> False | Some e \<Rightarrow> errors_Is e target))"

subsection \<open>The test handle \<open>testing.TB\<close>\<close>

text \<open>
  What the functions of \<open>pg.go\<close> read and write of a \<open>testing.TB\<close>: the test's name,
  the failed and skipped marks, the log, and the cleanup functions registered with
  \<open>tb.Cleanup\<close> (closures of the source, each named by a constructor holding what it
  captures). \<open>tb.Helper()\<close> only changes the file and line a log line is printed with,
  and is left out.

  \<open>tb.FailNow()\<close> and \<open>tb.SkipNow()\<close> end the calling goroutine: the function that
  calls them does not return. A function that can be ended returns \<open>Inl\<close> of the way
  it was ended, or \<open>Inr\<close> of its result, next to the handle as it leaves it.
\<close>

datatype stop = FailNow | SkipNow | Panic string

datatype log_entry =
    Logf string "string list"
  | NotLess nat nat
  | UnexpectedError go_error

datatype cleanup = SchemaCleanup string

record TB =
  tb_Name :: string
  tb_failed :: bool
  tb_skipped :: bool
  tb_log :: "log_entry list"
  tb_cleanups :: "cleanup list"

definition tb_Log :: "TB \<Rightarrow> log_entry \<Rightarrow> TB" where
  "tb_Log tb e = tb\<lparr>tb_log := tb_log tb @ [e]\<rparr>"

definition tb_Error :: "TB \<Rightarrow> log_entry \<Rightarrow> TB" where
  "tb_Error tb e = (tb_Log tb e)\<lparr>tb_failed := True\<rparr>"

definition tb_FailNow :: "TB \<Rightarrow> (stop + 'a) \<times> TB" where
  "tb_FailNow tb = (Inl FailNow, tb\<lparr>tb_failed := True\<rparr>)"

definition tb_Skip :: "TB \<Rightarrow> log_entry \<Rightarrow> (stop + 'a) \<times> TB" where
  "tb_Skip tb e = (Inl SkipNow, (tb_Log tb e)\<lparr>tb_skipped := True\<rparr>)"

definition tb_Cleanup :: "TB \<Rightarrow> cleanup \<Rightarrow> TB" where
  "tb_Cleanup tb f = tb\<lparr>tb_cleanups := tb_cleanups tb @ [f]\<rparr>"

text \<open>
  \<open>require.Less(tb, e1, e2)\<close> and \<open>require.NoError(tb, err)\<close> of testify: when the
  assertion does not hold, the failure is reported with \<open>tb.Errorf\<close> and the test is
  ended with \<open>tb.FailNow()\<close>.
\<close>

definition require_Less :: "TB \<Rightarrow> nat \<Rightarrow> nat \<Rightarrow> (stop + unit) \<times> TB" where
  "require_Less tb e1 e2 =
     (if e1 < e2 then (Inr (), tb) else tb_FailNow (tb_Error tb (NotLess e1 e2)))"

definition require_NoError :: "TB \<Rightarrow> go_error option \<Rightarrow> (stop + unit) \<times> TB" where
  "require_NoError tb err =
     (case err of
        None \<Rightarrow> (Inr (), tb)
      | Some e \<Rightarrow> tb_FailNow (tb_Error tb (UnexpectedError e)))"

section \<open>\<open>internal/util/testutil/pg.go\<close>\<close>

subsection \<open>\<open>PoolOpts\<close> and \<open>PoolConnString\<close>\<close>

record PoolOpts =
  ReadOnly :: bool

text \<open>\<open>new(PoolOpts)\<close>: the zero value.\<close>

definition new_PoolOpts :: PoolOpts where
  "new_PoolOpts = \<lparr>ReadOnly = False\<rparr>"

text \<open>
  \<open>short\<close> is \<open>testing.Short()\<close>, the \<open>-short\<close> flag of the test binary. \<open>opts\<close> is a
  pointer: \<open>None\<close> is nil, and reading a field through nil is the panic of the last
  branch.
\<close>

definition PoolConnString :: "bool \<Rightarrow> TB \<Rightarrow> PoolOpts option \<Rightarrow> (stop + string) \<times> TB" where
  "PoolConnString short tb opts =
     (if short then tb_Skip tb (Logf ''skipping in -short mode'' [])
      else
        let opts = (if opts = None then Some new_PoolOpts else opts) in
        case opts of
          None \<Rightarrow> (Inl (Panic ''invalid memory address or nil pointer dereference''), tb)
        | Some p \<Rightarrow>
            let username = ''postgres'';
                username = (if ReadOnly p then ''readonly'' else username)
            in (Inr (''postgres://'' @ username @ ''@127.0.0.1:5432/ferretdb?pool_min_conns=1''), tb))"

subsection \<open>\<open>SchemaName\<close> and \<open>TableName\<close>\<close>

definition SchemaName :: "(string \<Rightarrow> string) \<Rightarrow> TB \<Rightarrow> (stop + string) \<times> TB" where
  "SchemaName mapLower tb =
     (let name = ToLower mapLower (tb_Name tb);
          name = ReplaceAll name ''/'' ''-'';
          name = ReplaceAll name '' '' ''-''
      in case require_Less tb (length name) 64 of
           (Inl s, tb') \<Rightarrow> (Inl s, tb')
         | (Inr _, tb') \<Rightarrow> (Inr name, tb'))"

definition TableName :: "(string \<Rightarrow> string) \<Rightarrow> TB \<Rightarrow> (stop + string) \<times> TB" where
  "TableName mapLower tb =
     (let name = ToLower mapLower (tb_Name tb);
          name = ReplaceAll name ''/'' ''-'';
          name = ReplaceAll name '' '' ''-''
      in (Inr name, tb))"

subsection \<open>The pool of package \<open>pgdb\<close>\<close>

text \<open>
  Package \<open>internal/handlers/pg/pgdb\<close> is used by \<open>pg.go\<close> and is not part of the
  sources at hand. Its functions are the fields of a record, over any type \<open>'p\<close> of
  backend states, and the functions of \<open>pg.go\<close> below are defined, and their theorems
  proved, for every such record. A method returns its error (\<open>None\<close> is nil) and the
  backend as the call leaves it. The context is left out. (\<open>Pool\<close>, which only passes
  the connection string to \<open>pgdb.NewPool\<close>, is not modelled.)
\<close>

record 'p pgdb =
  DropDatabase :: "'p \<Rightarrow> string \<Rightarrow> go_error option \<times> 'p"
  CreateDatabase :: "'p \<Rightarrow> string \<Rightarrow> go_error option \<times> 'p"
  DropCollection :: "'p \<Rightarrow> string \<Rightarrow> string \<Rightarrow> go_error option \<times> 'p"
  CreateCollection :: "'p \<Rightarrow> string \<Rightarrow> string \<Rightarrow> go_error option \<times> 'p"
  ErrTableNotExist :: go_error

subsection \<open>\<open>Schema\<close> and \<open>Table\<close>\<close>

definition Schema ::
  "'p pgdb \<Rightarrow> (string \<Rightarrow> string) \<Rightarrow> TB \<Rightarrow> 'p \<Rightarrow> (stop + string) \<times> TB \<times> 'p" where
  "Schema db mapLower tb pool =
     (case SchemaName mapLower tb of
        (Inl s, tb) \<Rightarrow> (Inl s, tb, pool)
      | (Inr schema, tb) \<Rightarrow>
          (let tb = tb_Log tb (Logf ''Using schema %q.'' [schema]);
               (err, pool) = DropDatabase db pool schema;
               err = (if err_is err (ErrTableNotExist db) then None else err)
           in (case require_NoError tb err of
                 (Inl s, tb) \<Rightarrow> (Inl s, tb, pool)
               | (Inr _, tb) \<Rightarrow>
                   (let (err, pool) = CreateDatabase db pool schema in
                    (case require_NoError tb err of
                       (Inl s, tb) \<Rightarrow> (Inl s, tb, pool)
                     | (Inr _, tb) \<Rightarrow>
                         (Inr schema, tb_Cleanup tb (SchemaCleanup schema), pool))))))"

text \<open>
  The function that \<open>Schema\<close> registers with \<open>tb.Cleanup\<close>; the testing package calls
  it when the test ends.
\<close>

definition run_SchemaCleanup ::
  "'p pgdb \<Rightarrow> string \<Rightarrow> TB \<Rightarrow> 'p \<Rightarrow> (stop + unit) \<times> TB \<times> 'p" where
  "run_SchemaCleanup db schema tb pool =
     (if tb_failed tb
      then (Inr (), tb_Log tb (Logf ''Keeping schema %q for debugging.'' [schema]), pool)
      else
        (let (err, pool) = DropDatabase db pool schema;
             err = (if err_is err (ErrTableNotExist db) then None else err)
         in (case require_NoError tb err of
               (Inl s, tb) \<Rightarrow> (Inl s, tb, pool)
             | (Inr u, tb) \<Rightarrow> (Inr u, tb, pool))))"

definition Table ::
  "'p pgdb \<Rightarrow> (string \<Rightarrow> string) \<Rightarrow> TB \<Rightarrow> 'p \<Rightarrow> string \<Rightarrow> (stop + string) \<times> TB \<times> 'p" where
  "Table db mapLower tb pool dbname =
     (case TableName mapLower tb of
        (Inl s, tb) \<Rightarrow> (Inl s, tb, pool)
      | (Inr table, tb) \<Rightarrow>
          (let tb = tb_Log tb (Logf ''Using table %q.'' [table]);
               (err, pool) = DropCollection db pool dbname table;
               err = (if err_is err (ErrTableNotExist db) then None else err)
           in (case require_NoError tb err of
                 (Inl s, tb) \<Rightarrow> (Inl s, tb, pool)
               | (Inr _, tb) \<Rightarrow>
                   (let (err, pool) = CreateCollection db pool dbname table in
                    (case require_NoError tb err of
                       (Inl s, tb) \<Rightarrow> (Inl s, tb, pool)
                     | (Inr _, tb) \<Rightarrow> (Inr table, tb, pool))))))"

section \<open>The storage mapper's namespaces, from the specification\<close>

text \<open>
  Modelled from the spec: the namespace operations of the storage mapper (section 4.4),
  which the pool of package \<open>pgdb\<close> implements and which are not among the sources.
  A catalog maps a database (schema) to its collections (tables), and a collection to
  its rows, in the order they were appended.
  \<^item> \<open>createDatabase(name)\<close>: "issues schema creation; idempotent -- a schema already
    exists condition from a concurrent creator is treated as success, not failure."
  \<^item> \<open>dropDatabase(name)\<close>: "issues a cascading schema drop; returns NamespaceNotFound
    (not a generic error) when absent".
  \<^item> \<open>createCollection(db, name)\<close>: "issues table creation ...; fails with
    NamespaceAlreadyExists if the table is present."
  \<^item> \<open>dropCollection(db, name)\<close>: "issues table drop; same NamespaceNotFound
    distinguished error as database drop."
  \<^item> "dropDatabase/dropCollection on a nonexistent namespace returns NamespaceNotFound;
    the catalog is left unmodified."
  The spec does not say what \<open>createCollection\<close> answers when the database itself is
  absent; here it is \<open>NamespaceNotFound\<close>, and no theorem below rests on that case.
\<close>

datatype error_kind = NamespaceNotFound | NamespaceAlreadyExists | CommandError

type_synonym 'r catalog = "string \<rightharpoonup> (string \<rightharpoonup> 'r list)"

definition createDatabase :: "'r catalog \<Rightarrow> string \<Rightarrow> error_kind option \<times> 'r catalog" where
  "createDatabase cat name =
     (case cat name of
        Some _ \<Rightarrow> (None, cat)
      | None \<Rightarrow> (None, cat(name \<mapsto> Map.empty)))"

definition dropDatabase :: "'r catalog \<Rightarrow> string \<Rightarrow> error_kind option \<times> 'r catalog" where
  "dropDatabase cat name =
     (case cat name of
        None \<Rightarrow> (Some NamespaceNotFound, cat)
      | Some _ \<Rightarrow> (None, cat(name := None)))"

definition createCollection ::
  "'r catalog \<Rightarrow> string \<Rightarrow> string \<Rightarrow> error_kind option \<times> 'r catalog" where
  "createCollection cat db name =
     (case cat db of
        None \<Rightarrow> (Some NamespaceNotFound, cat)
      | Some tables \<Rightarrow>
          (case tables name of
             Some _ \<Rightarrow> (Some NamespaceAlreadyExists, cat)
           | None \<Rightarrow> (None, cat(db \<mapsto> tables(name \<mapsto> [])))))"

definition dropCollection ::
  "'r catalog \<Rightarrow> string \<Rightarrow> string \<Rightarrow> error_kind option \<times> 'r catalog" where
  "dropCollection cat db name =
     (case cat db of
        None \<Rightarrow> (Some NamespaceNotFound, cat)
      | Some tables \<Rightarrow>
          (case tables name of
             None \<Rightarrow> (Some NamespaceNotFound, cat)
           | Some _ \<Rightarrow> (None, cat(db \<mapsto> tables(name := None)))))"

text \<open>
  Modelled from the spec: the pool of package \<open>pgdb\<close> as the callers in \<open>pg.go\<close> see
  it. Each distinguished condition is one sentinel error value (section 7), and the
  one for \<open>NamespaceNotFound\<close> is the \<open>pgdb.ErrTableNotExist\<close> the callers compare with.
\<close>

fun sentinel :: "error_kind \<Rightarrow> go_error" where
  "sentinel NamespaceNotFound = GoError 1 ''NamespaceNotFound'' None"
| "sentinel NamespaceAlreadyExists = GoError 2 ''NamespaceAlreadyExists'' None"
| "sentinel CommandError = GoError 3 ''CommandError'' None"

definition returned :: "error_kind option \<times> 'p \<Rightarrow> go_error option \<times> 'p" where
  "returned r = (map_option sentinel (fst r), snd r)"

definition spec_pgdb :: "'r catalog pgdb" where
  "spec_pgdb =
     \<lparr>DropDatabase = (\<lambda>cat name. returned (dropDatabase cat name)),
      CreateDatabase = (\<lambda>cat name. returned (createDatabase cat name)),
      DropCollection = (\<lambda>cat db name. returned (dropCollection cat db name)),
      CreateCollection = (\<lambda>cat db name. returned (createCollection cat db name)),
      ErrTableNotExist = sentinel NamespaceNotFound\<rparr>"

section \<open>Documents and their binary encoding, from the specification\<close>

text \<open>
  Modelled from the spec: the document model (section 3) and the message codec's binary
  document encoding (sections 4.2 and 6), whose code (package \<open>bson\<close>) is not among the
  sources. "Document: an ordered sequence of named, typed fields (polymorphic value
  kinds: number variants, string, boolean, null, nested document, array, binary,
  date-time, identifier, decimal, regex, timestamp)." The number variants are the 64-bit
  float (its bit pattern: the codec copies the eight bytes), the 32-bit and the 64-bit
  integer.
\<close>

datatype bvalue =
    VDouble "64 word"
  | VString string
  | VDocument "(string \<times> bvalue) list"
  | VArray "bvalue list"
  | VBinary char string
  | VObjectID string
  | VBool bool
  | VDateTime "64 word"
  | VNull
  | VRegex string string
  | VInt32 "32 word"
  | VTimestamp "64 word"
  | VInt64 "64 word"
  | VDecimal128 "128 word"

type_synonym document = "(string \<times> bvalue) list"

text \<open>
  Modelled from the spec: the encoder of the codec (package \<open>bson\<close>, not among the sources).
  "Document encoding follows the standard binary document specification: typed,
  length-prefixed, little-endian fields with null-terminated names." A document is its
  length in bytes (a 32-bit integer, counting itself and the closing zero byte), its
  elements, and a zero byte; an element is a type tag, the field's name closed by a zero
  byte, and the value. An array is encoded as the document of its elements under the keys
  \<open>0\<close>, \<open>1\<close>, ... in decimal. Bytes are 8-bit characters.
\<close>

definition NUL :: char where
  "NUL = CHR 0x00"

fun le_bytes :: "nat \<Rightarrow> nat \<Rightarrow> string" where
  "le_bytes 0 v = []"
| "le_bytes (Suc n) v = char_of (v mod 256) # le_bytes n (v div 256)"

fun le_nat :: "string \<Rightarrow> nat" where
  "le_nat [] = 0"
| "le_nat (c # cs) = of_char c + 256 * le_nat cs"

definition cstring :: "string \<Rightarrow> string" where
  "cstring s = s @ [NUL]"

fun tag :: "bvalue \<Rightarrow> char" where
  "tag (VDouble _) = CHR 0x01"
| "tag (VString _) = CHR 0x02"
| "tag (VDocument _) = CHR 0x03"
| "tag (VArray _) = CHR 0x04"
| "tag (VBinary _ _) = CHR 0x05"
| "tag (VObjectID _) = CHR 0x07"
| "tag (VBool _) = CHR 0x08"
| "tag (VDateTime _) = CHR 0x09"
| "tag VNull = CHR 0x0A"
| "tag (VRegex _ _) = CHR 0x0B"
| "tag (VInt32 _) = CHR 0x10"
| "tag (VTimestamp _) = CHR 0x11"
| "tag (VInt64 _) = CHR 0x12"
| "tag (VDecimal128 _) = CHR 0x13"

function show_nat :: "nat \<Rightarrow> string" where
  "show_nat n =
     (if n < 10 then [char_of (48 + n)]
      else show_nat (n div 10) @ [char_of (48 + n mod 10)])"
  by pat_completeness auto
termination
  by (relation "measure id") auto

fun enc_value :: "bvalue \<Rightarrow> string"
  and enc_elems :: "(string \<times> bvalue) list \<Rightarrow> string"
  and enc_array :: "nat \<Rightarrow> bvalue list \<Rightarrow> string" where
  "enc_value (VDouble w) = le_bytes 8 (unat w)"
| "enc_value (VString s) = le_bytes 4 (length s + 1) @ s @ [NUL]"
| "enc_value (VDocument es) =
     (let body = enc_elems es in le_bytes 4 (length body + 5) @ body @ [NUL])"
| "enc_value (VArray vs) =
     (let body = enc_array 0 vs in le_bytes 4 (length body + 5) @ body @ [NUL])"
| "enc_value (VBinary subtype bs) = le_bytes 4 (length bs) @ subtype # bs"
| "enc_value (VObjectID bs) = bs"
| "enc_value (VBool b) = [if b then CHR 0x01 else CHR 0x00]"
| "enc_value (VDateTime w) = le_bytes 8 (unat w)"
| "enc_value VNull = []"
| "enc_value (VRegex pattern opts) = cstring pattern @ cstring opts"
| "enc_value (VInt32 w) = le_bytes 4 (unat w)"
| "enc_value (VTimestamp w) = le_bytes 8 (unat w)"
| "enc_value (VInt64 w) = le_bytes 8 (unat w)"
| "enc_value (VDecimal128 w) = le_bytes 16 (unat w)"
| "enc_elems [] = []"
| "enc_elems ((k, v) # es) = tag v # cstring k @ enc_value v @ enc_elems es"
| "enc_array i [] = []"
| "enc_array i (v # vs) = tag v # cstring (show_nat i) @ enc_value v @ enc_array (Suc i) vs"

definition encode :: "document \<Rightarrow> string" where
  "encode d = enc_value (VDocument d)"

text \<open>
  Modelled from the spec: the decoder of the codec (package \<open>bson\<close>, not among the sources).
  "Decoding validates structural well-formedness -- consistent embedded length fields,
  valid type tags, terminated strings -- and fails with an InvalidEncoding error on any
  violation". The decoder's recursion is bounded by a fuel that \<open>decode\<close> sets to the
  length of the input: every call that uses fuel has consumed a byte before.
\<close>

definition take_n :: "nat \<Rightarrow> string \<Rightarrow> (string \<times> string) option" where
  "take_n n bs = (if n \<le> length bs then Some (take n bs, drop n bs) else None)"

fun read_cstring :: "string \<Rightarrow> (string \<times> string) option" where
  "read_cstring [] = None"
| "read_cstring (c # cs) =
     (if c = NUL then Some ([], cs)
      else (case read_cstring cs of None \<Rightarrow> None | Some (s, r) \<Rightarrow> Some (c # s, r)))"

definition read_len :: "string \<Rightarrow> (nat \<times> string) option" where
  "read_len bs =
     do { (b, r) \<leftarrow> take_n 4 bs;
          if le_nat b < 2 ^ 31 then Some (le_nat b, r) else None }"

definition read_word :: "nat \<Rightarrow> string \<Rightarrow> ('a::len word \<times> string) option" where
  "read_word n bs = do { (b, r) \<leftarrow> take_n n bs; Some (word_of_nat (le_nat b), r) }"

fun dec_value :: "nat \<Rightarrow> char \<Rightarrow> string \<Rightarrow> (bvalue \<times> string) option"
  and dec_elems :: "nat \<Rightarrow> string \<Rightarrow> (string \<times> bvalue) list option"
  and dec_doc :: "nat \<Rightarrow> string \<Rightarrow> ((string \<times> bvalue) list \<times> string) option" where
  "dec_value 0 t bs = None"
| "dec_value (Suc f) t bs =
     (if t = CHR 0x01 then do { (w, r) \<leftarrow> read_word 8 bs; Some (VDouble w, r) }
      else if t = CHR 0x02 then
        do { (n, r) \<leftarrow> read_len bs;
             (s, r) \<leftarrow> take_n n r;
             if s \<noteq> [] \<and> last s = NUL then Some (VString (butlast s), r) else None }
      else if t = CHR 0x03 then do { (es, r) \<leftarrow> dec_doc f bs; Some (VDocument es, r) }
      else if t = CHR 0x04 then
        do { (es, r) \<leftarrow> dec_doc f bs;
             if map fst es = map show_nat [0..<length es]
             then Some (VArray (map snd es), r) else None }
      else if t = CHR 0x05 then
        do { (n, r) \<leftarrow> read_len bs;
             (case r of
                [] \<Rightarrow> None
              | subtype # r \<Rightarrow> do { (b, r) \<leftarrow> take_n n r; Some (VBinary subtype b, r) }) }
      else if t = CHR 0x07 then do { (b, r) \<leftarrow> take_n 12 bs; Some (VObjectID b, r) }
      else if t = CHR 0x08 then
        (case bs of
           [] \<Rightarrow> None
         | b # r \<Rightarrow>
             if b = CHR 0x00 then Some (VBool False, r)
             else if b = CHR 0x01 then Some (VBool True, r)
             else None)
      else if t = CHR 0x09 then do { (w, r) \<leftarrow> read_word 8 bs; Some (VDateTime w, r) }
      else if t = CHR 0x0A then Some (VNull, bs)
      else if t = CHR 0x0B then
        do { (pattern, r) \<leftarrow> read_cstring bs;
             (opts, r) \<leftarrow> read_cstring r;
             Some (VRegex pattern opts, r) }
      else if t = CHR 0x10 then do { (w, r) \<leftarrow> read_word 4 bs; Some (VInt32 w, r) }
      else if t = CHR 0x11 then do { (w, r) \<leftarrow> read_word 8 bs; Some (VTimestamp w, r) }
      else if t = CHR 0x12 then do { (w, r) \<leftarrow> read_word 8 bs; Some (VInt64 w, r) }
      else if t = CHR 0x13 then do { (w, r) \<leftarrow> read_word 16 bs; Some (VDecimal128 w, r) }
      else None)"
| "dec_elems 0 bs = None"
| "dec_elems (Suc f) bs =
     (case bs of
        [] \<Rightarrow> Some []
      | t # r \<Rightarrow>
          do { (k, r) \<leftarrow> read_cstring r;
               (v, r) \<leftarrow> dec_value f t r;
               es \<leftarrow> dec_elems f r;
               Some ((k, v) # es) })"
| "dec_doc 0 bs = None"
| "dec_doc (Suc f) bs =
     do { (n, _) \<leftarrow> read_len bs;
          (d, rest) \<leftarrow> take_n n bs;
          if n < 5 \<or> last d \<noteq> NUL then None
          else do { es \<leftarrow> dec_elems f (butlast (drop 4 d)); Some (es, rest) } }"

datatype codec_error = InvalidEncoding

definition decode :: "string \<Rightarrow> codec_error + document" where
  "decode bs =
     (case dec_doc (length bs) bs of
        Some (es, []) \<Rightarrow> Inr es
      | _ \<Rightarrow> Inl InvalidEncoding)"

text \<open>
  Modelled from the spec: the "valid documents" of its round-trip property, which the
  spec does not define. They are the documents the format can hold: names and regular
  expressions without a zero byte (they are null-terminated), identifiers of 12 bytes,
  and every length that is written as a 32-bit integer below \<open>2^31\<close>.
\<close>

fun valid_value :: "bvalue \<Rightarrow> bool"
  and valid_elems :: "(string \<times> bvalue) list \<Rightarrow> bool"
  and valid_values :: "bvalue list \<Rightarrow> bool" where
  "valid_value (VString s) = (length s + 1 < 2 ^ 31)"
| "valid_value (VDocument es) = (valid_elems es \<and> length (enc_elems es) + 5 < 2 ^ 31)"
| "valid_value (VArray vs) = (valid_values vs \<and> length (enc_array 0 vs) + 5 < 2 ^ 31)"
| "valid_value (VBinary subtype bs) = (length bs < 2 ^ 31)"
| "valid_value (VObjectID bs) = (length bs = 12)"
| "valid_value (VRegex pattern opts) = (NUL \<notin> set pattern \<and> NUL \<notin> set opts)"
| "valid_value (VDouble w) = True"
| "valid_value (VBool b) = True"
| "valid_value (VDateTime w) = True"
| "valid_value VNull = True"
| "valid_value (VInt32 w) = True"
| "valid_value (VTimestamp w) = True"
| "valid_value (VInt64 w) = True"
| "valid_value (VDecimal128 w) = True"
| "valid_elems [] = True"
| "valid_elems ((k, v) # es) = (NUL \<notin> set k \<and> valid_value v \<and> valid_elems es)"
| "valid_values [] = True"
| "valid_values (v # vs) = (valid_value v \<and> valid_values vs)"

definition valid_document :: "document \<Rightarrow> bool" where
  "valid_document d = valid_value (VDocument d)"

section \<open>Documents in the storage mapper, from the specification\<close>

text \<open>
  Modelled from the spec: the document operations of the storage mapper (section 4.4),
  whose code (the handlers) is not among the sources. "Every stored document carries a
  unique identifier field used as the relational primary key"; "insert appends a row";
  a table has "a uniqueness constraint on the identifier field"; a namespace is "created
  by explicit or implicit creation commands", so an insert into a collection that does
  not exist creates it. A filter is a document of fields a row must have (the operators
  of the query language are not modelled); the empty filter matches every row, and a
  query returns the matching rows in the order of the table, which is insertion order.
  The identifier field is the \<open>_id\<close> of the wire protocol; a document without one, or
  with the identifier of a row of the table, is refused with a \<open>CommandError\<close>.
  \<open>insert_all\<close> inserts a list of documents one after the other and stops at the first
  error.
\<close>

definition doc_id :: "document \<Rightarrow> bvalue option" where
  "doc_id d = map_of d ''_id''"

definition rows :: "document catalog \<Rightarrow> string \<Rightarrow> string \<Rightarrow> document list" where
  "rows cat db coll =
     (case cat db of
        None \<Rightarrow> []
      | Some tables \<Rightarrow> (case tables coll of None \<Rightarrow> [] | Some rs \<Rightarrow> rs))"

definition insert_doc ::
  "document catalog \<Rightarrow> string \<Rightarrow> string \<Rightarrow> document \<Rightarrow> error_kind option \<times> document catalog" where
  "insert_doc cat db coll d =
     (case doc_id d of
        None \<Rightarrow> (Some CommandError, cat)
      | Some i \<Rightarrow>
          if Some i \<in> set (map doc_id (rows cat db coll)) then (Some CommandError, cat)
          else
            let tables = (case cat db of None \<Rightarrow> Map.empty | Some tables \<Rightarrow> tables)
            in (None, cat(db \<mapsto> tables(coll \<mapsto> rows cat db coll @ [d]))))"

definition matches :: "document \<Rightarrow> document \<Rightarrow> bool" where
  "matches flt d = list_all (\<lambda>(k, v). map_of d k = Some v) flt"

definition find_docs ::
  "document catalog \<Rightarrow> string \<Rightarrow> string \<Rightarrow> document \<Rightarrow> document list" where
  "find_docs cat db coll flt = filter (matches flt) (rows cat db coll)"

fun insert_all ::
  "document catalog \<Rightarrow> string \<Rightarrow> string \<Rightarrow> document list \<Rightarrow> error_kind option \<times> document catalog" where
  "insert_all cat db coll [] = (None, cat)"
| "insert_all cat db coll (d # ds) =
     (case insert_doc cat db coll d of
        (None, cat') \<Rightarrow> insert_all cat' db coll ds
      | (Some e, cat') \<Rightarrow> (Some e, cat'))"

section \<open>\<open>TestEnvData\<close>\<close>

text \<open>
  The test \<open>TestEnvData\<close> of package \<open>tigris\<close>. The collection handle of the client
  driver is a record of its two methods used here, over any type \<open>'s\<close> of server states;
  database and collection are the \<open>test\<close> and \<open>values\<close> of the source. The documents of the
  provider \<open>shareddata.FixedScalars\<close> (not among the sources) are a parameter.
  \<open>t.Parallel()\<close> and \<open>integration.SetupWithOpts\<close> are left out.
\<close>

record 's client =
  Drop :: "'s \<Rightarrow> string \<Rightarrow> string \<Rightarrow> go_error option \<times> 's"
  InsertOne :: "'s \<Rightarrow> string \<Rightarrow> string \<Rightarrow> document \<Rightarrow> go_error option \<times> 's"

fun insert_provider ::
  "'s client \<Rightarrow> TB \<Rightarrow> 's \<Rightarrow> document list \<Rightarrow> (stop + unit) \<times> TB \<times> 's" where
  "insert_provider cl tb s [] = (Inr (), tb, s)"
| "insert_provider cl tb s (doc # docs) =
     (let (err, s) = InsertOne cl s ''test'' ''values'' doc in
      (case require_NoError tb err of
         (Inl st, tb) \<Rightarrow> (Inl st, tb, s)
       | (Inr _, tb) \<Rightarrow> insert_provider cl tb s docs))"

fun insert_providers ::
  "'s client \<Rightarrow> TB \<Rightarrow> 's \<Rightarrow> document list list \<Rightarrow> (stop + unit) \<times> TB \<times> 's" where
  "insert_providers cl tb s [] = (Inr (), tb, s)"
| "insert_providers cl tb s (provider # providers) =
     (case insert_provider cl tb s provider of
        (Inl st, tb, s) \<Rightarrow> (Inl st, tb, s)
      | (Inr _, tb, s) \<Rightarrow> insert_providers cl tb s providers)"

definition TestEnvData ::
  "'s client \<Rightarrow> document list \<Rightarrow> TB \<Rightarrow> 's \<Rightarrow> (stop + unit) \<times> TB \<times> 's" where
  "TestEnvData cl FixedScalars tb s =
     (let (err, s) = Drop cl s ''test'' ''values'' in
      (case require_NoError tb err of
         (Inl st, tb) \<Rightarrow> (Inl st, tb, s)
       | (Inr _, tb) \<Rightarrow>
           (let providers = [FixedScalars] in insert_providers cl tb s providers)))"

text \<open>
  Modelled from the spec: the client's two methods on the storage mapper. \<open>Drop\<close> is the
  caller with "drop-if-exists semantics" of section 4.4: \<open>NamespaceNotFound\<close> is success.
\<close>

definition drop_if_exists_coll ::
  "document catalog \<Rightarrow> string \<Rightarrow> string \<Rightarrow> error_kind option \<times> document catalog" where
  "drop_if_exists_coll cat db coll =
     (case dropCollection cat db coll of
        (Some NamespaceNotFound, cat') \<Rightarrow> (None, cat')
      | r \<Rightarrow> r)"

definition spec_client :: "document catalog client" where
  "spec_client =
     \<lparr>Drop = (\<lambda>cat db coll. returned (drop_if_exists_coll cat db coll)),
      InsertOne = (\<lambda>cat db coll d. returned (insert_doc cat db coll d))\<rparr>"

section \<open>Values the theorems are run on\<close>

text \<open>The handle of a test that has just started.\<close>

definition tb_new :: "string \<Rightarrow> TB" where
  "tb_new n = \<lparr>tb_Name = n, tb_failed = False, tb_skipped = False, tb_log = [], tb_cleanups = []\<rparr>"

text \<open>
  A pool whose two drop methods answer a given error and leave the backend (here no
  state at all) alone, and whose create methods succeed.
\<close>

definition drop_fails :: "go_error option \<Rightarrow> unit pgdb" where
  "drop_fails err =
     \<lparr>DropDatabase = (\<lambda>p name. (err, p)),
      CreateDatabase = (\<lambda>p name. (None, p)),
      DropCollection = (\<lambda>p db name. (err, p)),
      CreateCollection = (\<lambda>p db name. (None, p)),
      ErrTableNotExist = sentinel NamespaceNotFound\<rparr>"

text \<open>
  \<open>fmt.Errorf("pgdb.DropDatabase: %w", ErrTableNotExist)\<close>: a new error value that wraps
  the sentinel.
\<close>

definition wrapped_not_found :: go_error where
  "wrapped_not_found =
     GoError 7 ''pgdb.DropDatabase: NamespaceNotFound'' (Some (sentinel NamespaceNotFound))"

text \<open>
  The name mapping in the words of the claims: "lowercase the name, replace every
  \<open>/\<close> and every space with \<open>-\<close>".
\<close>

definition name_spec :: "(string \<Rightarrow> string) \<Rightarrow> string \<Rightarrow> string" where
  "name_spec mapLower n =
     map (\<lambda>c. if c = CHR ''/'' \<or> c = CHR '' '' then CHR ''-'' else c) (ToLower mapLower n)"

text \<open>Five documents with five identifiers.\<close>

definition five_docs :: "document list" where
  "five_docs =
     [[(''_id'', VInt32 1), (''v'', VString ''foo'')],
      [(''_id'', VInt32 2), (''v'', VBool True)],
      [(''_id'', VInt32 3), (''v'', VNull)],
      [(''_id'', VInt32 4), (''v'', VInt64 42)],
      [(''_id'', VInt32 5), (''v'', VArray [VInt32 1, VInt32 2])]]"

text \<open>A document with a field of every kind.\<close>

definition all_kinds :: document where
  "all_kinds =
     [(''_id'', VObjectID ''0123456789ab''),
      (''double'', VDouble 0x400921FB54442D18),
      (''string'', VString ''foo''),
      (''doc'', VDocument [(''a'', VInt32 1), (''b'', VDocument [])]),
      (''array'', VArray [VInt32 1, VString ''x'', VArray []]),
      (''binary'', VBinary (CHR 0x80) ''abc''),
      (''bool'', VBool True),
      (''datetime'', VDateTime 1635000000000),
      (''null'', VNull),
      (''regex'', VRegex ''^a.*'' ''i''),
      (''int32'', VInt32 (- 1)),
      (''timestamp'', VTimestamp 42),
      (''int64'', VInt64 (- 2)),
      (''decimal'', VDecimal128 7)]"

section \<open>Lemmas\<close>

subsection \<open>The name mapping\<close>

lemma ReplaceAll_byte: "ReplaceAll s [c] [d] = map (\<lambda>x. if x = c then d else x) s"
  by (induction s) auto

lemma transformed_name:
  "ReplaceAll (ReplaceAll (ToLower m n) ''/'' ''-'') '' '' ''-'' = name_spec m n"
  by (simp add: ReplaceAll_byte name_spec_def)

lemma ToLower_ASCII: "isASCII s \<Longrightarrow> ToLower m s = map lower_byte s"
  by (auto simp: ToLower_def hasUpper_def lower_byte_def list_ex_iff intro!: map_idI[symmetric])

lemma length_name_spec_ASCII: "isASCII n \<Longrightarrow> length (name_spec m n) = length n"
  by (simp add: name_spec_def ToLower_ASCII)

lemma SchemaName_eq:
  "SchemaName m tb =
     (if length (name_spec m (tb_Name tb)) < 64 then (Inr (name_spec m (tb_Name tb)), tb)
      else tb_FailNow (tb_Error tb (NotLess (length (name_spec m (tb_Name tb))) 64)))"
  by (simp add: SchemaName_def transformed_name require_Less_def tb_FailNow_def Let_def)

lemma TableName_eq: "TableName m tb = (Inr (name_spec m (tb_Name tb)), tb)"
  by (simp add: TableName_def transformed_name Let_def)

lemmas name_eval = SchemaName_def TableName_def tb_new_def ToLower_def isASCII_def hasUpper_def
  isUpper_def lower_byte_def require_Less_def char_of_def bit_Suc_0_iff tb_FailNow_def
  tb_Error_def tb_Log_def Let_def

subsection \<open>\<open>Schema\<close> and \<open>Table\<close>, by the error of the drop\<close>

lemma Schema_drop_ok:
  assumes "SchemaName m tb = (Inr schema, tb1)"
    and "DropDatabase db pool schema = (err, pool1)"
    and "err = None \<or> err_is err (ErrTableNotExist db)"
    and "CreateDatabase db pool1 schema = (None, pool2)"
  shows "Schema db m tb pool =
           (Inr schema,
            tb_Cleanup (tb_Log tb1 (Logf ''Using schema %q.'' [schema])) (SchemaCleanup schema),
            pool2)"
  using assms by (auto simp: Schema_def require_NoError_def)

lemma Schema_drop_error:
  assumes "SchemaName m tb = (Inr schema, tb1)"
    and "DropDatabase db pool schema = (Some e, pool1)"
    and "\<not> go_eq e (ErrTableNotExist db)"
  shows "Schema db m tb pool =
           (Inl FailNow,
            (tb_Error (tb_Log tb1 (Logf ''Using schema %q.'' [schema])) (UnexpectedError e))
              \<lparr>tb_failed := True\<rparr>,
            pool1)"
  using assms by (simp add: Schema_def require_NoError_def err_is_def tb_FailNow_def)

lemma Table_drop_ok:
  assumes "DropCollection db pool dbname (name_spec m (tb_Name tb)) = (err, pool1)"
    and "err = None \<or> err_is err (ErrTableNotExist db)"
    and "CreateCollection db pool1 dbname (name_spec m (tb_Name tb)) = (None, pool2)"
  shows "Table db m tb pool dbname =
           (Inr (name_spec m (tb_Name tb)),
            tb_Log tb (Logf ''Using table %q.'' [name_spec m (tb_Name tb)]), pool2)"
  using assms by (auto simp: Table_def TableName_eq require_NoError_def)

lemma Table_drop_error:
  assumes "DropCollection db pool dbname (name_spec m (tb_Name tb)) = (Some e, pool1)"
    and "\<not> go_eq e (ErrTableNotExist db)"
  shows "Table db m tb pool dbname =
           (Inl FailNow,
            (tb_Error (tb_Log tb (Logf ''Using table %q.'' [name_spec m (tb_Name tb)]))
               (UnexpectedError e))\<lparr>tb_failed := True\<rparr>,
            pool1)"
  using assms by (simp add: Table_def TableName_eq require_NoError_def err_is_def tb_FailNow_def)

lemma dropDatabase_absent: "cat name = None \<Longrightarrow> dropDatabase cat name = (Some NamespaceNotFound, cat)"
  by (simp add: dropDatabase_def)

lemma dropCollection_absent:
  "(case cat db of None \<Rightarrow> True | Some tables \<Rightarrow> tables name = None) \<Longrightarrow>
   dropCollection cat db name = (Some NamespaceNotFound, cat)"
  by (auto simp: dropCollection_def split: option.splits)


lemma spec_pgdb_sel [simp]:
  "DropDatabase spec_pgdb = (\<lambda>cat name. returned (dropDatabase cat name))"
  "CreateDatabase spec_pgdb = (\<lambda>cat name. returned (createDatabase cat name))"
  "DropCollection spec_pgdb = (\<lambda>cat db name. returned (dropCollection cat db name))"
  "CreateCollection spec_pgdb = (\<lambda>cat db name. returned (createCollection cat db name))"
  "ErrTableNotExist spec_pgdb = sentinel NamespaceNotFound"
  by (simp_all add: spec_pgdb_def)

lemma drop_fails_sel [simp]:
  "DropDatabase (drop_fails err) = (\<lambda>p name. (err, p))"
  "CreateDatabase (drop_fails err) = (\<lambda>p name. (None, p))"
  "DropCollection (drop_fails err) = (\<lambda>p db name. (err, p))"
  "CreateCollection (drop_fails err) = (\<lambda>p db name. (None, p))"
  "ErrTableNotExist (drop_fails err) = sentinel NamespaceNotFound"
  by (simp_all add: drop_fails_def)

subsection \<open>The storage mapper's documents\<close>

lemma rows_insert:
  "insert_doc cat db coll d = (None, cat') \<Longrightarrow> rows cat' db coll = rows cat db coll @ [d]"
  by (auto simp: insert_doc_def rows_def Let_def split: option.splits if_splits)

lemma insert_doc_ok:
  "doc_id d = Some i \<Longrightarrow> Some i \<notin> set (map doc_id (rows cat db coll)) \<Longrightarrow>
   \<exists>cat'. insert_doc cat db coll d = (None, cat')"
  by (auto simp: insert_doc_def Let_def)

lemma insert_all_rows:
  "distinct (map doc_id (rows cat db coll @ ds)) \<Longrightarrow> None \<notin> set (map doc_id ds) \<Longrightarrow>
   \<exists>cat'. insert_all cat db coll ds = (None, cat') \<and> rows cat' db coll = rows cat db coll @ ds"
proof (induction ds arbitrary: cat)
  case Nil
  then show ?case by simp
next
  case (Cons d ds)
  from Cons.prems obtain i where i: "doc_id d = Some i" by (cases "doc_id d") auto
  with Cons.prems have "Some i \<notin> set (map doc_id (rows cat db coll))" by auto
  with i obtain cat1 where c1: "insert_doc cat db coll d = (None, cat1)"
    using insert_doc_ok by blast
  then have r1: "rows cat1 db coll = rows cat db coll @ [d]" by (rule rows_insert)
  with Cons.prems have "distinct (map doc_id (rows cat1 db coll @ ds))"
    and "None \<notin> set (map doc_id ds)" by auto
  from Cons.IH [OF this] c1 r1 show ?case by auto
qed

lemma find_all: "find_docs cat db coll [] = rows cat db coll"
  by (simp add: find_docs_def matches_def)


lemma spec_client_sel [simp]:
  "Drop spec_client = (\<lambda>cat db coll. returned (drop_if_exists_coll cat db coll))"
  "InsertOne spec_client = (\<lambda>cat db coll d. returned (insert_doc cat db coll d))"
  by (simp_all add: spec_client_def)

lemma rows_createCollection:
  "createCollection cat db coll = (None, cat') \<Longrightarrow> rows cat' db coll = []"
  by (auto simp: createCollection_def rows_def split: option.splits)

lemma createCollection_ok:
  "cat db = Some tables \<Longrightarrow> tables coll = None \<Longrightarrow>
   \<exists>cat'. createCollection cat db coll = (None, cat')"
  by (simp add: createCollection_def)

lemma drop_if_exists_coll_rows:
  "\<exists>cat'. drop_if_exists_coll cat db coll = (None, cat') \<and> rows cat' db coll = []"
  by (auto simp: drop_if_exists_coll_def dropCollection_def rows_def split: option.splits)

lemma insert_provider_spec:
  "insert_all cat ''test'' ''values'' ds = (None, cat') \<Longrightarrow>
   insert_provider spec_client tb cat ds = (Inr (), tb, cat')"
proof (induction ds arbitrary: cat)
  case Nil
  then show ?case by simp
next
  case (Cons d ds)
  then show ?case
    by (auto simp: returned_def require_NoError_def split: prod.splits option.splits)
qed

lemma TestEnvData_spec:
  assumes "distinct (map doc_id ds)" and "None \<notin> set (map doc_id ds)"
  shows "\<exists>cat'. TestEnvData spec_client ds tb cat = (Inr (), tb, cat') \<and>
           find_docs cat' ''test'' ''values'' [] = ds"
proof -
  obtain cat1 where c1: "drop_if_exists_coll cat ''test'' ''values'' = (None, cat1)"
    and r1: "rows cat1 ''test'' ''values'' = []"
    using drop_if_exists_coll_rows by blast
  from assms r1 have "distinct (map doc_id (rows cat1 ''test'' ''values'' @ ds))" by simp
  from insert_all_rows [OF this assms(2)] r1 obtain cat2
    where c2: "insert_all cat1 ''test'' ''values'' ds = (None, cat2)"
      and r2: "rows cat2 ''test'' ''values'' = ds" by auto
  from c1 insert_provider_spec [OF c2, of tb]
  have "TestEnvData spec_client ds tb cat = (Inr (), tb, cat2)"
    by (simp add: TestEnvData_def returned_def require_NoError_def)
  with r2 show ?thesis by (simp add: find_all)
qed

lemma five_docs_ids:
  "length five_docs = 5 \<and> distinct (map doc_id five_docs) \<and> None \<notin> set (map doc_id five_docs)"
  by (simp add: five_docs_def doc_id_def)

subsection \<open>The codec\<close>

declare show_nat.simps [simp del]

lemma length_le_bytes [simp]: "length (le_bytes n v) = n"
  by (induction n arbitrary: v) auto

lemma le_nat_le_bytes: "v < 256 ^ n \<Longrightarrow> le_nat (le_bytes n v) = v"
proof (induction n arbitrary: v)
  case 0
  then show ?case by simp
next
  case (Suc n)
  then have "v div 256 < 256 ^ n"
    by (simp add: less_mult_imp_div_less mult.commute)
  with Suc.IH have "le_nat (le_bytes n (v div 256)) = v div 256" by simp
  then show ?case by simp
qed

lemma take_n_append [simp]: "take_n (length a) (a @ r) = Some (a, r)"
  by (simp add: take_n_def)

lemma take_n_le_bytes [simp]: "take_n n (le_bytes n v @ r) = Some (le_bytes n v, r)"
  using take_n_append [of "le_bytes n v" r] by simp

lemma read_len_le_bytes: "n < 2 ^ 31 \<Longrightarrow> read_len (le_bytes 4 n @ r) = Some (n, r)"
proof -
  assume n: "n < 2 ^ 31"
  then have "n < (256 :: nat) ^ 4" by simp
  then have "le_nat (le_bytes 4 n) = n" by (rule le_nat_le_bytes)
  with n show ?thesis by (simp add: read_len_def)
qed

lemma read_word_32: "read_word 4 (le_bytes 4 (unat (w :: 32 word)) @ r) = Some (w, r)"
proof -
  have "unat w < 2 ^ 32" using unsigned_less [of w, where ?'a = nat] by simp
  then have "unat w < (256 :: nat) ^ 4" by simp
  then have "le_nat (le_bytes 4 (unat w)) = unat w" by (rule le_nat_le_bytes)
  then show ?thesis by (simp add: read_word_def)
qed

lemma read_word_64: "read_word 8 (le_bytes 8 (unat (w :: 64 word)) @ r) = Some (w, r)"
proof -
  have "unat w < 2 ^ 64" using unsigned_less [of w, where ?'a = nat] by simp
  then have "unat w < (256 :: nat) ^ 8" by simp
  then have "le_nat (le_bytes 8 (unat w)) = unat w" by (rule le_nat_le_bytes)
  then show ?thesis by (simp add: read_word_def)
qed

lemma read_word_128: "read_word 16 (le_bytes 16 (unat (w :: 128 word)) @ r) = Some (w, r)"
proof -
  have "unat w < 2 ^ 128" using unsigned_less [of w, where ?'a = nat] by simp
  then have "unat w < (256 :: nat) ^ 16" by simp
  then have "le_nat (le_bytes 16 (unat w)) = unat w" by (rule le_nat_le_bytes)
  then show ?thesis by (simp add: read_word_def)
qed

lemma read_cstring_cstring:
  "NUL \<notin> set s \<Longrightarrow> read_cstring (cstring s @ r) = Some (s, r)"
  by (induction s) (auto simp: cstring_def)

lemma show_nat_no_NUL: "NUL \<notin> set (show_nat n)"
proof (induction n rule: show_nat.induct)
  case (1 n)
  have digit: "char_of (48 + d) \<noteq> NUL" if "d < 10" for d :: nat
    using that by (simp add: NUL_def char_of_eq_iff take_bit_eq_mod)
  then have digit': "NUL \<noteq> char_of (48 + d)" if "d < 10" for d :: nat
    using that by metis
  show ?case
  proof (cases "n < 10")
    case True
    with digit' show ?thesis by (subst show_nat.simps) simp
  next
    case False
    with 1 digit' [of "n mod 10"] show ?thesis by (subst show_nat.simps) simp
  qed
qed


lemma dec_doc_body:
  assumes "dec_elems f body = Some es" and "length body + 5 < 2 ^ 31"
  shows "dec_doc (Suc f) (le_bytes 4 (length body + 5) @ body @ NUL # rest) = Some (es, rest)"
proof -
  let ?d = "le_bytes 4 (length body + 5) @ body @ [NUL]"
  have tk: "take_n (length body + 5) (?d @ rest) = Some (?d, rest)"
    by (simp add: take_n_def)
  have "butlast (drop 4 ?d) = body" by simp
  with assms tk read_len_le_bytes [of "length body + 5" "body @ NUL # rest"]
  show ?thesis by simp
qed

lemma array_keys:
  "map fst (zip (map show_nat [0..<length vs]) vs) = map show_nat [0..<length vs]
   \<and> map snd (zip (map show_nat [0..<length vs]) vs) = vs
   \<and> length (zip (map show_nat [0..<length vs]) vs) = length vs"
  by simp

lemma roundtrip_ind:
  "\<forall>f rest. length (enc_value v) < f \<longrightarrow> valid_value v \<longrightarrow>
     dec_value f (tag v) (enc_value v @ rest) = Some (v, rest)"
  "\<forall>f. length (enc_elems es) < f \<longrightarrow> valid_elems es \<longrightarrow>
     dec_elems f (enc_elems es) = Some es"
  "\<forall>f. length (enc_array i vs) < f \<longrightarrow> valid_values vs \<longrightarrow>
     dec_elems f (enc_array i vs) = Some (zip (map show_nat [i..<i + length vs]) vs)"
proof (induction v and es and i vs rule: enc_value_enc_elems_enc_array.induct)
  case (1 w)
  show ?case
  proof (intro allI impI)
    fix f rest assume "length (enc_value (VDouble w)) < f"
    then obtain f' where "f = Suc f'" by (cases f) auto
    then show "dec_value f (tag (VDouble w)) (enc_value (VDouble w) @ rest) = Some (VDouble w, rest)"
      by (simp add: read_word_64)
  qed
next
  case (2 s)
  show ?case
  proof (intro allI impI)
    fix f rest assume "length (enc_value (VString s)) < f" and v: "valid_value (VString s)"
    then obtain f' where f: "f = Suc f'" by (cases f) auto
    have "take_n (length s + 1) ((s @ [NUL]) @ rest) = Some (s @ [NUL], rest)"
      using take_n_append [of "s @ [NUL]" rest] by simp
    with f v read_len_le_bytes [of "length s + 1" "s @ NUL # rest"]
    show "dec_value f (tag (VString s)) (enc_value (VString s) @ rest) = Some (VString s, rest)"
      by simp
  qed
next
  case (3 es)
  show ?case
  proof (intro allI impI)
    fix f rest assume len: "length (enc_value (VDocument es)) < f"
      and v: "valid_value (VDocument es)"
    then obtain f2 where f: "f = Suc (Suc f2)" and f2: "length (enc_elems es) < f2"
      by (cases f; cases "f - 1") (auto simp: Let_def)
    with 3 v have "dec_elems f2 (enc_elems es) = Some es" by simp
    from dec_doc_body [OF this, of rest] v f
    show "dec_value f (tag (VDocument es)) (enc_value (VDocument es) @ rest)
            = Some (VDocument es, rest)"
      by (simp add: Let_def)
  qed
next
  case (4 vs)
  show ?case
  proof (intro allI impI)
    fix f rest assume len: "length (enc_value (VArray vs)) < f"
      and v: "valid_value (VArray vs)"
    then obtain f2 where f: "f = Suc (Suc f2)" and f2: "length (enc_array 0 vs) < f2"
      by (cases f; cases "f - 1") (auto simp: Let_def)
    with 4 v have "dec_elems f2 (enc_array 0 vs) = Some (zip (map show_nat [0..<length vs]) vs)"
      by simp
    from dec_doc_body [OF this, of rest] v f array_keys [of vs]
    show "dec_value f (tag (VArray vs)) (enc_value (VArray vs) @ rest) = Some (VArray vs, rest)"
      by (simp add: Let_def)
  qed
next
  case (5 subtype bs)
  show ?case
  proof (intro allI impI)
    fix f rest assume "length (enc_value (VBinary subtype bs)) < f"
      and v: "valid_value (VBinary subtype bs)"
    then obtain f' where f: "f = Suc f'" by (cases f) auto
    with v read_len_le_bytes [of "length bs" "subtype # bs @ rest"]
    show "dec_value f (tag (VBinary subtype bs)) (enc_value (VBinary subtype bs) @ rest)
            = Some (VBinary subtype bs, rest)"
      by simp
  qed
next
  case (6 bs)
  show ?case
  proof (intro allI impI)
    fix f rest assume "length (enc_value (VObjectID bs)) < f"
      and v: "valid_value (VObjectID bs)"
    then obtain f' where f: "f = Suc f'" by (cases f) auto
    with v take_n_append [of bs rest]
    show "dec_value f (tag (VObjectID bs)) (enc_value (VObjectID bs) @ rest)
            = Some (VObjectID bs, rest)"
      by simp
  qed
next
  case (7 b)
  show ?case
  proof (intro allI impI)
    fix f rest assume "length (enc_value (VBool b)) < f"
    then obtain f' where "f = Suc f'" by (cases f) auto
    then show "dec_value f (tag (VBool b)) (enc_value (VBool b) @ rest) = Some (VBool b, rest)"
      by simp
  qed
next
  case (8 w)
  show ?case
  proof (intro allI impI)
    fix f rest assume "length (enc_value (VDateTime w)) < f"
    then obtain f' where "f = Suc f'" by (cases f) auto
    then show "dec_value f (tag (VDateTime w)) (enc_value (VDateTime w) @ rest)
                 = Some (VDateTime w, rest)"
      by (simp add: read_word_64)
  qed
next
  case 9
  show ?case
  proof (intro allI impI)
    fix f rest assume "length (enc_value VNull) < f"
    then obtain f' where "f = Suc f'" by (cases f) auto
    then show "dec_value f (tag VNull) (enc_value VNull @ rest) = Some (VNull, rest)"
      by simp
  qed
next
  case (10 pattern opts)
  show ?case
  proof (intro allI impI)
    fix f rest assume "length (enc_value (VRegex pattern opts)) < f"
      and v: "valid_value (VRegex pattern opts)"
    then obtain f' where f: "f = Suc f'" by (cases f) auto
    from v have "read_cstring (cstring pattern @ cstring opts @ rest) = Some (pattern, cstring opts @ rest)"
      and "read_cstring (cstring opts @ rest) = Some (opts, rest)"
      by (simp_all add: read_cstring_cstring)
    with f show "dec_value f (tag (VRegex pattern opts)) (enc_value (VRegex pattern opts) @ rest)
                   = Some (VRegex pattern opts, rest)"
      by simp
  qed
next
  case (11 w)
  show ?case
  proof (intro allI impI)
    fix f rest assume "length (enc_value (VInt32 w)) < f"
    then obtain f' where "f = Suc f'" by (cases f) auto
    then show "dec_value f (tag (VInt32 w)) (enc_value (VInt32 w) @ rest) = Some (VInt32 w, rest)"
      by (simp add: read_word_32)
  qed
next
  case (12 w)
  show ?case
  proof (intro allI impI)
    fix f rest assume "length (enc_value (VTimestamp w)) < f"
    then obtain f' where "f = Suc f'" by (cases f) auto
    then show "dec_value f (tag (VTimestamp w)) (enc_value (VTimestamp w) @ rest)
                 = Some (VTimestamp w, rest)"
      by (simp add: read_word_64)
  qed
next
  case (13 w)
  show ?case
  proof (intro allI impI)
    fix f rest assume "length (enc_value (VInt64 w)) < f"
    then obtain f' where "f = Suc f'" by (cases f) auto
    then show "dec_value f (tag (VInt64 w)) (enc_value (VInt64 w) @ rest) = Some (VInt64 w, rest)"
      by (simp add: read_word_64)
  qed
next
  case (14 w)
  show ?case
  proof (intro allI impI)
    fix f rest assume "length (enc_value (VDecimal128 w)) < f"
    then obtain f' where "f = Suc f'" by (cases f) auto
    then show "dec_value f (tag (VDecimal128 w)) (enc_value (VDecimal128 w) @ rest)
                 = Some (VDecimal128 w, rest)"
      by (simp add: read_word_128)
  qed
next
  case 15
  show ?case
  proof (intro allI impI)
    fix f :: nat assume "length (enc_elems []) < f"
    then obtain f' where "f = Suc f'" by (cases f) auto
    then show "dec_elems f (enc_elems []) = Some []" by simp
  qed
next
  case (16 k v es)
  show ?case
  proof (intro allI impI)
    fix f assume len: "length (enc_elems ((k, v) # es)) < f"
      and val: "valid_elems ((k, v) # es)"
    then obtain f' where f: "f = Suc f'" and fv: "length (enc_value v) < f'"
      and fe: "length (enc_elems es) < f'"
      by (cases f) auto
    from val have "read_cstring (cstring k @ enc_value v @ enc_elems es)
        = Some (k, enc_value v @ enc_elems es)"
      by (simp add: read_cstring_cstring)
    moreover from 16 fv val have "dec_value f' (tag v) (enc_value v @ enc_elems es)
        = Some (v, enc_elems es)" by simp
    moreover from 16 fe val have "dec_elems f' (enc_elems es) = Some es" by simp
    ultimately show "dec_elems f (enc_elems ((k, v) # es)) = Some ((k, v) # es)"
      using f by simp
  qed
next
  case (17 i)
  show ?case
  proof (intro allI impI)
    fix f :: nat assume "length (enc_array i []) < f"
    then obtain f' where "f = Suc f'" by (cases f) auto
    then show "dec_elems f (enc_array i []) = Some (zip (map show_nat [i..<i + length []]) [])"
      by simp
  qed
next
  case (18 i v vs)
  show ?case
  proof (intro allI impI)
    fix f assume len: "length (enc_array i (v # vs)) < f"
      and val: "valid_values (v # vs)"
    then obtain f' where f: "f = Suc f'" and fv: "length (enc_value v) < f'"
      and fe: "length (enc_array (Suc i) vs) < f'"
      by (cases f) auto
    have "read_cstring (cstring (show_nat i) @ enc_value v @ enc_array (Suc i) vs)
        = Some (show_nat i, enc_value v @ enc_array (Suc i) vs)"
      by (simp add: read_cstring_cstring show_nat_no_NUL)
    moreover from 18 fv val have "dec_value f' (tag v) (enc_value v @ enc_array (Suc i) vs)
        = Some (v, enc_array (Suc i) vs)" by simp
    moreover from 18 fe val have "dec_elems f' (enc_array (Suc i) vs)
        = Some (zip (map show_nat [Suc i..<Suc i + length vs]) vs)" by simp
    moreover have "[i..<i + length (v # vs)] = i # [Suc i..<Suc i + length vs]"
      using upt_conv_Cons [of i "i + length (v # vs)"] by simp
    ultimately show "dec_elems f (enc_array i (v # vs))
        = Some (zip (map show_nat [i..<i + length (v # vs)]) (v # vs))"
      using f by simp
  qed
qed


lemma decode_encode: "valid_document d \<Longrightarrow> decode (encode d) = Inr d"
proof -
  assume v: "valid_document d"
  then have ve: "valid_elems d" and small: "length (enc_elems d) + 5 < 2 ^ 31"
    by (simp_all add: valid_document_def)
  from roundtrip_ind(2) [of d] ve have "dec_elems (length (enc_elems d) + 4) (enc_elems d) = Some d"
    by simp
  from dec_doc_body [OF this small, of "[]"]
  show ?thesis by (simp add: decode_def encode_def Let_def)
qed

lemma show_nat_digit: "n < 10 \<Longrightarrow> show_nat n = [char_of (48 + n)]"
  by (subst show_nat.simps) simp

lemma all_kinds_valid_elems: "valid_elems all_kinds"
  by (simp add: all_kinds_def NUL_def cstring_def show_nat_digit)

lemma all_kinds_length: "length (enc_elems all_kinds) = 241"
  by (simp add: all_kinds_def cstring_def show_nat_digit)

section \<open>The claims\<close>

text \<open>
  C1. Dropping a namespace that does not exist (\<open>dropDatabase\<close>, \<open>dropCollection\<close> of the
  storage mapper, as the pool's \<open>DropDatabase\<close> and \<open>DropCollection\<close>) returns the
  distinguished not-found error and leaves the catalog as it was. \<open>Schema\<close> and \<open>Table\<close>,
  over any pool, treat exactly that error as success and go on to create the namespace;
  any other error of the drop is reported (the test is failed and ended with the error in
  its log, and nothing is created).
\<close>

theorem drop_if_exists:
  fixes cat :: "'r catalog" and db :: "'p pgdb"
  shows
  "(cat name = None \<longrightarrow>
      dropDatabase cat name = (Some NamespaceNotFound, cat) \<and>
      DropDatabase spec_pgdb cat name = (Some (ErrTableNotExist spec_pgdb), cat))
   \<and> ((case cat dbname of None \<Rightarrow> True | Some tables \<Rightarrow> tables name = None) \<longrightarrow>
      dropCollection cat dbname name = (Some NamespaceNotFound, cat) \<and>
      DropCollection spec_pgdb cat dbname name = (Some (ErrTableNotExist spec_pgdb), cat))
   \<and> (SchemaName m tb = (Inr schema, tb1) \<and>
       DropDatabase db pool schema = (Some (ErrTableNotExist db), pool1) \<and>
       CreateDatabase db pool1 schema = (None, pool2) \<longrightarrow>
      Schema db m tb pool =
        (Inr schema,
         tb_Cleanup (tb_Log tb1 (Logf ''Using schema %q.'' [schema])) (SchemaCleanup schema),
         pool2))
   \<and> (SchemaName m tb = (Inr schema, tb1) \<and>
       DropDatabase db pool schema = (Some e, pool1) \<and> \<not> go_eq e (ErrTableNotExist db) \<longrightarrow>
      Schema db m tb pool =
        (Inl FailNow,
         (tb_Error (tb_Log tb1 (Logf ''Using schema %q.'' [schema])) (UnexpectedError e))
           \<lparr>tb_failed := True\<rparr>,
         pool1))
   \<and> (DropCollection db pool dbname (name_spec m (tb_Name tb)) = (Some (ErrTableNotExist db), pool1) \<and>
       CreateCollection db pool1 dbname (name_spec m (tb_Name tb)) = (None, pool2) \<longrightarrow>
      Table db m tb pool dbname =
        (Inr (name_spec m (tb_Name tb)),
         tb_Log tb (Logf ''Using table %q.'' [name_spec m (tb_Name tb)]), pool2))
   \<and> (DropCollection db pool dbname (name_spec m (tb_Name tb)) = (Some e, pool1) \<and>
       \<not> go_eq e (ErrTableNotExist db) \<longrightarrow>
      Table db m tb pool dbname =
        (Inl FailNow,
         (tb_Error (tb_Log tb (Logf ''Using table %q.'' [name_spec m (tb_Name tb)]))
            (UnexpectedError e))\<lparr>tb_failed := True\<rparr>,
         pool1))"
proof (intro conjI impI)
  assume "cat name = None"
  then show "dropDatabase cat name = (Some NamespaceNotFound, cat)"
    by (rule dropDatabase_absent)
  then show "DropDatabase spec_pgdb cat name = (Some (ErrTableNotExist spec_pgdb), cat)"
    by (simp add: returned_def)
next
  assume "case cat dbname of None \<Rightarrow> True | Some tables \<Rightarrow> tables name = None"
  then show "dropCollection cat dbname name = (Some NamespaceNotFound, cat)"
    by (rule dropCollection_absent)
  then show "DropCollection spec_pgdb cat dbname name = (Some (ErrTableNotExist spec_pgdb), cat)"
    by (simp add: returned_def)
next
  assume "SchemaName m tb = (Inr schema, tb1) \<and>
       DropDatabase db pool schema = (Some (ErrTableNotExist db), pool1) \<and>
       CreateDatabase db pool1 schema = (None, pool2)"
  then show "Schema db m tb pool =
        (Inr schema,
         tb_Cleanup (tb_Log tb1 (Logf ''Using schema %q.'' [schema])) (SchemaCleanup schema),
         pool2)"
    by (intro Schema_drop_ok [where err = "Some (ErrTableNotExist db)" and ?pool1.0 = pool1])
       (simp_all add: err_is_def go_eq_def)
next
  assume "SchemaName m tb = (Inr schema, tb1) \<and>
       DropDatabase db pool schema = (Some e, pool1) \<and> \<not> go_eq e (ErrTableNotExist db)"
  then show "Schema db m tb pool =
        (Inl FailNow,
         (tb_Error (tb_Log tb1 (Logf ''Using schema %q.'' [schema])) (UnexpectedError e))
           \<lparr>tb_failed := True\<rparr>,
         pool1)"
    by (intro Schema_drop_error) simp_all
next
  assume "DropCollection db pool dbname (name_spec m (tb_Name tb)) = (Some (ErrTableNotExist db), pool1) \<and>
       CreateCollection db pool1 dbname (name_spec m (tb_Name tb)) = (None, pool2)"
  then show "Table db m tb pool dbname =
        (Inr (name_spec m (tb_Name tb)),
         tb_Log tb (Logf ''Using table %q.'' [name_spec m (tb_Name tb)]), pool2)"
    by (intro Table_drop_ok [where err = "Some (ErrTableNotExist db)" and ?pool1.0 = pool1])
       (simp_all add: err_is_def go_eq_def)
next
  assume "DropCollection db pool dbname (name_spec m (tb_Name tb)) = (Some e, pool1) \<and>
       \<not> go_eq e (ErrTableNotExist db)"
  then show "Table db m tb pool dbname =
        (Inl FailNow,
         (tb_Error (tb_Log tb (Logf ''Using table %q.'' [name_spec m (tb_Name tb)]))
            (UnexpectedError e))\<lparr>tb_failed := True\<rparr>,
         pool1)"
    by (intro Table_drop_error) simp_all
qed

theorem drop_if_exists_witness:
  "dropDatabase (Map.empty :: unit catalog) ''testdrop'' = (Some NamespaceNotFound, Map.empty)
   \<and> dropCollection [''test'' \<mapsto> Map.empty :: string \<rightharpoonup> unit list] ''test'' ''testdrop''
       = (Some NamespaceNotFound, [''test'' \<mapsto> Map.empty])
   \<and> fst (Schema spec_pgdb id (tb_new ''TestDrop'') (Map.empty :: unit catalog)) = Inr ''testdrop''
   \<and> snd (snd (Schema spec_pgdb id (tb_new ''TestDrop'') (Map.empty :: unit catalog)))
       = [''testdrop'' \<mapsto> Map.empty]
   \<and> fst (Schema (drop_fails (Some (sentinel CommandError))) id (tb_new ''TestDrop'') ())
       = Inl FailNow
   \<and> fst (Table spec_pgdb id (tb_new ''TestDrop'')
             [''test'' \<mapsto> Map.empty :: string \<rightharpoonup> unit list] ''test'') = Inr ''testdrop''
   \<and> snd (snd (Table spec_pgdb id (tb_new ''TestDrop'')
             [''test'' \<mapsto> Map.empty :: string \<rightharpoonup> unit list] ''test''))
       = [''test'' \<mapsto> [''testdrop'' \<mapsto> []]]
   \<and> fst (Table (drop_fails (Some (sentinel CommandError))) id (tb_new ''TestDrop'') () ''test'')
       = Inl FailNow"
proof -
  let ?tb = "tb_new ''TestDrop''"
  let ?c0 = "Map.empty :: unit catalog"
  let ?c1 = "[''test'' \<mapsto> Map.empty] :: unit catalog"
  let ?sp = "spec_pgdb :: unit catalog pgdb"
  let ?bad = "drop_fails (Some (sentinel CommandError))"
  have sn: "SchemaName id ?tb = (Inr ''testdrop'', ?tb)"
    by (simp add: name_eval)
  have nm: "name_spec id (tb_Name ?tb) = ''testdrop''"
    by (simp add: name_spec_def name_eval)
  have a: "dropDatabase ?c0 ''testdrop'' = (Some NamespaceNotFound, ?c0)"
    using drop_if_exists [where cat = ?c0 and name = "''testdrop''", THEN conjunct1] by simp
  have b: "dropCollection ?c1 ''test'' ''testdrop'' = (Some NamespaceNotFound, ?c1)"
    using drop_if_exists [where cat = ?c1 and dbname = "''test''" and name = "''testdrop''",
        THEN conjunct2, THEN conjunct1]
    by simp
  have c: "Schema ?sp id ?tb ?c0 =
      (Inr ''testdrop'',
       tb_Cleanup (tb_Log ?tb (Logf ''Using schema %q.'' [''testdrop''])) (SchemaCleanup ''testdrop''),
       [''testdrop'' \<mapsto> Map.empty])"
    using drop_if_exists [where db = ?sp and m = id and tb = ?tb and schema = "''testdrop''"
        and ?tb1.0 = ?tb and pool = ?c0 and ?pool1.0 = ?c0
        and ?pool2.0 = "[''testdrop'' \<mapsto> Map.empty]",
        THEN conjunct2, THEN conjunct2, THEN conjunct1] sn
    by (simp add: returned_def dropDatabase_def createDatabase_def)
  have d: "fst (Schema ?bad id ?tb ()) = Inl FailNow"
    using drop_if_exists [where db = ?bad and m = id and tb = ?tb and schema = "''testdrop''"
        and ?tb1.0 = ?tb and pool = "()" and ?pool1.0 = "()" and e = "sentinel CommandError",
        THEN conjunct2, THEN conjunct2, THEN conjunct2, THEN conjunct1] sn
    by (simp add: go_eq_def)
  have e: "Table ?sp id ?tb ?c1 ''test'' =
      (Inr ''testdrop'', tb_Log ?tb (Logf ''Using table %q.'' [''testdrop'']),
       [''test'' \<mapsto> [''testdrop'' \<mapsto> []]])"
    using drop_if_exists [where db = ?sp and m = id and tb = ?tb and dbname = "''test''"
        and pool = ?c1 and ?pool1.0 = ?c1
        and ?pool2.0 = "[''test'' \<mapsto> [''testdrop'' \<mapsto> []]]",
        THEN conjunct2, THEN conjunct2, THEN conjunct2, THEN conjunct2, THEN conjunct1] nm
    by (simp add: returned_def dropCollection_def createCollection_def)
  have f: "fst (Table ?bad id ?tb () ''test'') = Inl FailNow"
    using drop_if_exists [where db = ?bad and m = id and tb = ?tb and dbname = "''test''"
        and pool = "()" and ?pool1.0 = "()" and e = "sentinel CommandError",
        THEN conjunct2, THEN conjunct2, THEN conjunct2, THEN conjunct2, THEN conjunct2] nm
    by (simp add: go_eq_def)
  from a b c d e f show ?thesis by simp
qed

text \<open>
  C2. For every valid document \<open>d\<close>, with fields of any of the value kinds, decoding the
  encoding of \<open>d\<close> gives \<open>d\<close> back, and encoding what was decoded gives the bytes of
  \<open>encode d\<close> again.
\<close>

theorem codec_roundtrip:
  "valid_document d \<longrightarrow>
     decode (encode d) = Inr d \<and>
     (\<forall>d'. decode (encode d) = Inr d' \<longrightarrow> d' = d \<and> encode d' = encode d)"
  by (simp add: decode_encode)

theorem codec_roundtrip_witness:
  "valid_document all_kinds
   \<and> decode (encode all_kinds) = Inr all_kinds
   \<and> decode (encode [(''hello'', VString ''world'')]) = Inr [(''hello'', VString ''world'')]"
proof -
  have a: "valid_document all_kinds"
    by (simp add: valid_document_def all_kinds_valid_elems all_kinds_length)
  have b: "valid_document [(''hello'', VString ''world'')]"
    by (simp add: valid_document_def NUL_def cstring_def)
  from a codec_roundtrip [of all_kinds]
  have c: "decode (encode all_kinds) = Inr all_kinds" by blast
  from b codec_roundtrip [of "[(''hello'', VString ''world'')]"]
  have d: "decode (encode [(''hello'', VString ''world'')]) = Inr [(''hello'', VString ''world'')]"
    by blast
  from a c d show ?thesis by blast
qed

text \<open>
  C3, as the claim states it, fails: the two names \<open>TestDrop\<close> and \<open>testdrop\<close> differ only in
  letter case, and \<open>SchemaName\<close> and \<open>TableName\<close> give both the identifier \<open>testdrop\<close>.
\<close>

theorem case_sensitive_counterexample:
  "''TestDrop'' \<noteq> ''testdrop''
   \<and> map lower_byte ''TestDrop'' = map lower_byte ''testdrop''
   \<and> fst (SchemaName id (tb_new ''TestDrop'')) = Inr ''testdrop''
   \<and> fst (SchemaName id (tb_new ''testdrop'')) = Inr ''testdrop''
   \<and> fst (TableName id (tb_new ''TestDrop'')) = Inr ''testdrop''
   \<and> fst (TableName id (tb_new ''testdrop'')) = Inr ''testdrop''"
  by (simp add: name_eval)

text \<open>
  C3, amended. The name mapping is not case-sensitive: two test names that are equal after
  \<open>strings.ToLower\<close> (for ASCII names: equal byte by byte once every upper-case letter is
  lowered) resolve to the same identifier, by \<open>SchemaName\<close> and by \<open>TableName\<close>.
\<close>

theorem names_case_insensitive:
  "(ToLower m (tb_Name tb1) = ToLower m (tb_Name tb2) \<longrightarrow>
      fst (SchemaName m tb1) = fst (SchemaName m tb2) \<and>
      fst (TableName m tb1) = fst (TableName m tb2))
   \<and> (isASCII (tb_Name tb1) \<and> isASCII (tb_Name tb2) \<and>
        map lower_byte (tb_Name tb1) = map lower_byte (tb_Name tb2) \<longrightarrow>
      fst (SchemaName m tb1) = fst (SchemaName m tb2) \<and>
      fst (TableName m tb1) = fst (TableName m tb2))"
  by (simp add: SchemaName_eq TableName_eq name_spec_def ToLower_ASCII tb_FailNow_def)

theorem names_case_insensitive_witness:
  "isASCII ''TestDrop'' \<and> isASCII ''testdrop''
   \<and> map lower_byte ''TestDrop'' = map lower_byte ''testdrop''
   \<and> ToLower id ''TestDrop'' = ToLower id ''testdrop''
   \<and> fst (SchemaName id (tb_new ''TestDrop'')) = fst (SchemaName id (tb_new ''testdrop''))
   \<and> fst (TableName id (tb_new ''TestDrop'')) = fst (TableName id (tb_new ''testdrop''))"
proof -
  have a: "isASCII ''TestDrop'' \<and> isASCII ''testdrop''
     \<and> map lower_byte ''TestDrop'' = map lower_byte ''testdrop''
     \<and> ToLower id ''TestDrop'' = ToLower id ''testdrop''"
    by (simp add: name_eval)
  have nm: "tb_Name (tb_new ''TestDrop'') = ''TestDrop''" "tb_Name (tb_new ''testdrop'') = ''testdrop''"
    by (simp_all add: tb_new_def)
  from names_case_insensitive [of id "tb_new ''TestDrop''" "tb_new ''testdrop''"] a nm
  show ?thesis by simp
qed

text \<open>
  C4, as the claim states it, fails: an error that wraps the sentinel is of the not-found
  kind for \<open>errors.Is\<close>, is not the sentinel value itself, and makes \<open>Schema\<close> and \<open>Table\<close>
  fail the test.
\<close>

theorem not_found_by_kind_counterexample:
  "errors_Is wrapped_not_found (ErrTableNotExist (drop_fails (Some wrapped_not_found)))
   \<and> \<not> go_eq wrapped_not_found (ErrTableNotExist (drop_fails (Some wrapped_not_found)))
   \<and> DropDatabase (drop_fails (Some wrapped_not_found)) () ''testdrop''
       = (Some wrapped_not_found, ())
   \<and> fst (Schema (drop_fails (Some wrapped_not_found)) id (tb_new ''TestDrop'') ()) = Inl FailNow
   \<and> DropCollection (drop_fails (Some wrapped_not_found)) () ''test'' ''testdrop''
       = (Some wrapped_not_found, ())
   \<and> fst (Table (drop_fails (Some wrapped_not_found)) id (tb_new ''TestDrop'') () ''test'')
       = Inl FailNow"
  by (simp add: wrapped_not_found_def go_eq_def Schema_def Table_def err_is_def
      require_NoError_def name_eval)

text \<open>
  C4, amended. \<open>Schema\<close> and \<open>Table\<close> compare the error of the drop with the sentinel
  \<open>pgdb.ErrTableNotExist\<close> by \<open>==\<close>, that is by identity: when the create that follows
  succeeds, they return their name exactly when the drop returned nil or the sentinel
  value itself; an error that only wraps the sentinel is reported as a failure.
\<close>

theorem drop_error_compared_by_identity:
  fixes db :: "'p pgdb"
  shows
  "(SchemaName m tb = (Inr schema, tb1) \<and> DropDatabase db pool schema = (err, pool1) \<and>
    CreateDatabase db pool1 schema = (None, pool2) \<longrightarrow>
      (fst (Schema db m tb pool) = Inr schema \<longleftrightarrow>
         err = None \<or> (\<exists>e. err = Some e \<and> err_ptr e = err_ptr (ErrTableNotExist db))))
   \<and> (DropCollection db pool dbname (name_spec m (tb_Name tb)) = (err, pool1) \<and>
       CreateCollection db pool1 dbname (name_spec m (tb_Name tb)) = (None, pool2) \<longrightarrow>
      (fst (Table db m tb pool dbname) = Inr (name_spec m (tb_Name tb)) \<longleftrightarrow>
         err = None \<or> (\<exists>e. err = Some e \<and> err_ptr e = err_ptr (ErrTableNotExist db))))
   \<and> (errors_Is e (ErrTableNotExist db) \<and> err_ptr e \<noteq> err_ptr (ErrTableNotExist db) \<and>
       SchemaName m tb = (Inr schema, tb1) \<and> DropDatabase db pool schema = (Some e, pool1) \<longrightarrow>
      fst (Schema db m tb pool) = Inl FailNow)
   \<and> (errors_Is e (ErrTableNotExist db) \<and> err_ptr e \<noteq> err_ptr (ErrTableNotExist db) \<and>
       DropCollection db pool dbname (name_spec m (tb_Name tb)) = (Some e, pool1) \<longrightarrow>
      fst (Table db m tb pool dbname) = Inl FailNow)"
proof (intro conjI impI)
  assume h: "SchemaName m tb = (Inr schema, tb1) \<and> DropDatabase db pool schema = (err, pool1) \<and>
    CreateDatabase db pool1 schema = (None, pool2)"
  show "fst (Schema db m tb pool) = Inr schema \<longleftrightarrow>
         err = None \<or> (\<exists>e. err = Some e \<and> err_ptr e = err_ptr (ErrTableNotExist db))"
  proof (cases "err = None \<or> err_is err (ErrTableNotExist db)")
    case True
    with h Schema_drop_ok [of m tb schema tb1 db pool err pool1 pool2] show ?thesis
      by (auto simp: err_is_def go_eq_def split: option.splits)
  next
    case False
    then obtain e where e: "err = Some e" "\<not> go_eq e (ErrTableNotExist db)"
      by (auto simp: err_is_def split: option.splits)
    with h Schema_drop_error [of m tb schema tb1 db pool e pool1] show ?thesis
      by (simp add: go_eq_def)
  qed
next
  assume h: "DropCollection db pool dbname (name_spec m (tb_Name tb)) = (err, pool1) \<and>
       CreateCollection db pool1 dbname (name_spec m (tb_Name tb)) = (None, pool2)"
  show "fst (Table db m tb pool dbname) = Inr (name_spec m (tb_Name tb)) \<longleftrightarrow>
         err = None \<or> (\<exists>e. err = Some e \<and> err_ptr e = err_ptr (ErrTableNotExist db))"
  proof (cases "err = None \<or> err_is err (ErrTableNotExist db)")
    case True
    with h Table_drop_ok [of db pool dbname m tb err pool1 pool2] show ?thesis
      by (auto simp: err_is_def go_eq_def split: option.splits)
  next
    case False
    then obtain e where e: "err = Some e" "\<not> go_eq e (ErrTableNotExist db)"
      by (auto simp: err_is_def split: option.splits)
    with h Table_drop_error [of db pool dbname m tb e pool1] show ?thesis
      by (simp add: go_eq_def)
  qed
next
  assume "errors_Is e (ErrTableNotExist db) \<and> err_ptr e \<noteq> err_ptr (ErrTableNotExist db) \<and>
       SchemaName m tb = (Inr schema, tb1) \<and> DropDatabase db pool schema = (Some e, pool1)"
  then show "fst (Schema db m tb pool) = Inl FailNow"
    using Schema_drop_error [of m tb schema tb1 db pool e pool1] by (simp add: go_eq_def)
next
  assume "errors_Is e (ErrTableNotExist db) \<and> err_ptr e \<noteq> err_ptr (ErrTableNotExist db) \<and>
       DropCollection db pool dbname (name_spec m (tb_Name tb)) = (Some e, pool1)"
  then show "fst (Table db m tb pool dbname) = Inl FailNow"
    using Table_drop_error [of db pool dbname m tb e pool1] by (simp add: go_eq_def)
qed

theorem drop_error_compared_by_identity_witness:
  "fst (Schema (drop_fails (Some (sentinel NamespaceNotFound))) id (tb_new ''TestDrop'') ())
     = Inr ''testdrop''
   \<and> fst (Table (drop_fails (Some (sentinel NamespaceNotFound))) id (tb_new ''TestDrop'') () ''test'')
     = Inr ''testdrop''
   \<and> errors_Is wrapped_not_found (sentinel NamespaceNotFound)
   \<and> err_ptr wrapped_not_found \<noteq> err_ptr (sentinel NamespaceNotFound)
   \<and> fst (Schema (drop_fails (Some wrapped_not_found)) id (tb_new ''TestDrop'') ()) = Inl FailNow
   \<and> fst (Table (drop_fails (Some wrapped_not_found)) id (tb_new ''TestDrop'') () ''test'')
     = Inl FailNow"
proof -
  let ?tb = "tb_new ''TestDrop''"
  let ?same = "drop_fails (Some (sentinel NamespaceNotFound))"
  let ?wrap = "drop_fails (Some wrapped_not_found)"
  have sn: "SchemaName id ?tb = (Inr ''testdrop'', ?tb)"
    by (simp add: name_eval)
  have nm: "name_spec id (tb_Name ?tb) = ''testdrop''"
    by (simp add: name_spec_def name_eval)
  have w: "errors_Is wrapped_not_found (sentinel NamespaceNotFound)"
    "err_ptr wrapped_not_found \<noteq> err_ptr (sentinel NamespaceNotFound)"
    by (simp_all add: wrapped_not_found_def go_eq_def)
  have a: "fst (Schema ?same id ?tb ()) = Inr ''testdrop''"
    using drop_error_compared_by_identity [where db = ?same and m = id and tb = ?tb
        and schema = "''testdrop''" and ?tb1.0 = ?tb and pool = "()" and ?pool1.0 = "()"
        and ?pool2.0 = "()" and err = "Some (sentinel NamespaceNotFound)", THEN conjunct1] sn
    by simp
  have b: "fst (Table ?same id ?tb () ''test'') = Inr ''testdrop''"
    using drop_error_compared_by_identity [where db = ?same and m = id and tb = ?tb
        and dbname = "''test''" and pool = "()" and ?pool1.0 = "()"
        and ?pool2.0 = "()" and err = "Some (sentinel NamespaceNotFound)",
        THEN conjunct2, THEN conjunct1] nm
    by simp
  have c: "fst (Schema ?wrap id ?tb ()) = Inl FailNow"
    using drop_error_compared_by_identity [where db = ?wrap and m = id and tb = ?tb
        and schema = "''testdrop''" and ?tb1.0 = ?tb and pool = "()" and ?pool1.0 = "()"
        and e = wrapped_not_found, THEN conjunct2, THEN conjunct2, THEN conjunct1] sn w
    by simp
  have d: "fst (Table ?wrap id ?tb () ''test'') = Inl FailNow"
    using drop_error_compared_by_identity [where db = ?wrap and m = id and tb = ?tb
        and dbname = "''test''" and pool = "()" and ?pool1.0 = "()"
        and e = wrapped_not_found, THEN conjunct2, THEN conjunct2, THEN conjunct2] nm w
    by simp
  from a b c d w show ?thesis by simp
qed

text \<open>
  C5, as the claim states it, fails for \<open>TableName\<close>: for a test name of 66 bytes it returns
  an identifier of 66 bytes.
\<close>

theorem TableName_length_counterexample:
  "fst (TableName id (tb_new ''TestQueryArrayDotNotation/PositionIndexGreaterThanArrayLengthExact''))
     = Inr ''testqueryarraydotnotation-positionindexgreaterthanarraylengthexact''
   \<and> length ''testqueryarraydotnotation-positionindexgreaterthanarraylengthexact'' = 66
   \<and> \<not> length ''testqueryarraydotnotation-positionindexgreaterthanarraylengthexact'' < 64"
  by (simp add: name_eval)

text \<open>
  C5, amended. The identifier \<open>SchemaName\<close> returns is strictly shorter than 64 bytes, and
  its length assertion does not fail for an ASCII test name shorter than 64 bytes (the
  identifier then has the length of the name). \<open>TableName\<close> has no length assertion: it
  always returns, an identifier as long as the transformed name (for an ASCII test name:
  as long as the name), whatever that length is.
\<close>

theorem name_length_bound:
  "(\<forall>name. fst (SchemaName m tb) = Inr name \<longrightarrow> length name < 64)
   \<and> (isASCII (tb_Name tb) \<and> length (tb_Name tb) < 64 \<longrightarrow>
        (\<exists>name. SchemaName m tb = (Inr name, tb) \<and> length name = length (tb_Name tb)))
   \<and> (\<exists>name. TableName m tb = (Inr name, tb) \<and>
        length name = length (name_spec m (tb_Name tb)) \<and>
        (isASCII (tb_Name tb) \<longrightarrow> length name = length (tb_Name tb)))"
  by (simp add: SchemaName_eq TableName_eq tb_FailNow_def length_name_spec_ASCII)

theorem name_length_bound_witness:
  "isASCII ''TestFoo/Bar Baz'' \<and> length ''TestFoo/Bar Baz'' < 64
   \<and> SchemaName id (tb_new ''TestFoo/Bar Baz'') = (Inr ''testfoo-bar-baz'', tb_new ''TestFoo/Bar Baz'')
   \<and> length ''testfoo-bar-baz'' < 64
   \<and> TableName id (tb_new ''TestFoo/Bar Baz'') = (Inr ''testfoo-bar-baz'', tb_new ''TestFoo/Bar Baz'')
   \<and> length ''testfoo-bar-baz'' = length ''TestFoo/Bar Baz''"
proof -
  have pre: "isASCII ''TestFoo/Bar Baz'' \<and> length ''TestFoo/Bar Baz'' < 64"
    by (simp add: isASCII_def)
  have nm: "tb_Name (tb_new ''TestFoo/Bar Baz'') = ''TestFoo/Bar Baz''"
    by (simp add: tb_new_def)
  have run: "SchemaName id (tb_new ''TestFoo/Bar Baz'') = (Inr ''testfoo-bar-baz'', tb_new ''TestFoo/Bar Baz'')"
    "TableName id (tb_new ''TestFoo/Bar Baz'') = (Inr ''testfoo-bar-baz'', tb_new ''TestFoo/Bar Baz'')"
    by (simp_all add: name_eval)
  from name_length_bound [of id "tb_new ''TestFoo/Bar Baz''"] pre nm run
  show ?thesis by simp
qed

text \<open>
  C6. For every \<open>opts\<close> (nil or not), when \<open>PoolConnString\<close> returns (the test binary is
  not in \<open>-short\<close> mode, where the test is skipped), the user of the connection string is
  \<open>readonly\<close> exactly when \<open>opts.ReadOnly\<close> is set and \<open>postgres\<close> otherwise, and the string
  ends with \<open>?pool_min_conns=1\<close>.
\<close>

theorem PoolConnString_role:
  "PoolConnString False tb opts =
     (Inr (''postgres://''
            @ (if (case opts of None \<Rightarrow> False | Some p \<Rightarrow> ReadOnly p) then ''readonly'' else ''postgres'')
            @ ''@127.0.0.1:5432/ferretdb?pool_min_conns=1''), tb)
   \<and> (\<forall>short s tb'. PoolConnString short tb opts = (Inr s, tb') \<longrightarrow>
          (prefix ''postgres://readonly@'' s \<longleftrightarrow>
             (case opts of None \<Rightarrow> False | Some p \<Rightarrow> ReadOnly p)) \<and>
          (prefix ''postgres://postgres@'' s \<longleftrightarrow>
             \<not> (case opts of None \<Rightarrow> False | Some p \<Rightarrow> ReadOnly p)) \<and>
          suffix ''?pool_min_conns=1'' s)"
  by (cases opts) (auto simp: PoolConnString_def tb_Skip_def suffix_def new_PoolOpts_def)

theorem PoolConnString_role_witness:
  "PoolConnString False (tb_new ''TestPool'') (Some \<lparr>ReadOnly = True\<rparr>) =
     (Inr ''postgres://readonly@127.0.0.1:5432/ferretdb?pool_min_conns=1'', tb_new ''TestPool'')
   \<and> prefix ''postgres://readonly@'' ''postgres://readonly@127.0.0.1:5432/ferretdb?pool_min_conns=1''
   \<and> \<not> prefix ''postgres://postgres@'' ''postgres://readonly@127.0.0.1:5432/ferretdb?pool_min_conns=1''
   \<and> suffix ''?pool_min_conns=1'' ''postgres://readonly@127.0.0.1:5432/ferretdb?pool_min_conns=1''"
proof -
  note role = PoolConnString_role [of "tb_new ''TestPool''" "Some \<lparr>ReadOnly = True\<rparr>"]
  from role have run:
    "PoolConnString False (tb_new ''TestPool'') (Some \<lparr>ReadOnly = True\<rparr>) =
       (Inr ''postgres://readonly@127.0.0.1:5432/ferretdb?pool_min_conns=1'', tb_new ''TestPool'')"
    by simp
  from role run have
    "(prefix ''postgres://readonly@'' ''postgres://readonly@127.0.0.1:5432/ferretdb?pool_min_conns=1''
        \<longleftrightarrow> (case Some \<lparr>ReadOnly = True\<rparr> of None \<Rightarrow> False | Some p \<Rightarrow> ReadOnly p))
     \<and> (prefix ''postgres://postgres@'' ''postgres://readonly@127.0.0.1:5432/ferretdb?pool_min_conns=1''
        \<longleftrightarrow> \<not> (case Some \<lparr>ReadOnly = True\<rparr> of None \<Rightarrow> False | Some p \<Rightarrow> ReadOnly p))
     \<and> suffix ''?pool_min_conns=1'' ''postgres://readonly@127.0.0.1:5432/ferretdb?pool_min_conns=1''"
    by blast
  with run show ?thesis by simp
qed

text \<open>
  C7. Name resolution is deterministic: the identifier \<open>SchemaName\<close> (and \<open>TableName\<close>)
  returns depends on the handle through the test's name only, so two handles of the same
  name get the same identifier, and a second call on the handle the first call left gets
  the same identifier again.
\<close>

theorem name_resolution_deterministic:
  "(tb_Name tb1 = tb_Name tb2 \<longrightarrow>
      fst (SchemaName m tb1) = fst (SchemaName m tb2) \<and>
      fst (TableName m tb1) = fst (TableName m tb2))
   \<and> fst (SchemaName m (snd (SchemaName m tb))) = fst (SchemaName m tb)
   \<and> fst (TableName m (snd (TableName m tb))) = fst (TableName m tb)"
  by (simp add: SchemaName_eq TableName_eq tb_FailNow_def tb_Error_def tb_Log_def)

theorem name_resolution_deterministic_witness:
  "tb_Name (tb_new ''TestFoo/Bar Baz'') =
     tb_Name ((tb_new ''TestFoo/Bar Baz'')\<lparr>tb_failed := True, tb_log := [NotLess 70 64]\<rparr>)
   \<and> fst (SchemaName id (tb_new ''TestFoo/Bar Baz'')) = Inr ''testfoo-bar-baz''
   \<and> fst (SchemaName id ((tb_new ''TestFoo/Bar Baz'')\<lparr>tb_failed := True, tb_log := [NotLess 70 64]\<rparr>))
       = Inr ''testfoo-bar-baz''
   \<and> fst (TableName id (tb_new ''TestFoo/Bar Baz'')) =
       fst (TableName id ((tb_new ''TestFoo/Bar Baz'')\<lparr>tb_failed := True, tb_log := [NotLess 70 64]\<rparr>))"
  using name_resolution_deterministic [of "tb_new ''TestFoo/Bar Baz''"
      "(tb_new ''TestFoo/Bar Baz'')\<lparr>tb_failed := True, tb_log := [NotLess 70 64]\<rparr>" id]
  by (simp add: name_eval)

text \<open>
  C8. In a database \<open>test\<close> without a collection \<open>values\<close>: creating the collection and
  inserting five documents (of five different identifiers) succeeds, and the query with
  the empty filter then returns exactly these five documents, in the order they were
  inserted. \<open>TestEnvData\<close> over the storage mapper leaves \<open>test.values\<close> with exactly the
  provider's documents, in that order, whatever was there before.
\<close>

theorem five_documents_found:
  fixes cat :: "document catalog"
  shows
  "(cat ''test'' = Some tables \<and> tables ''values'' = None \<and> length ds = 5 \<and>
    distinct (map doc_id ds) \<and> None \<notin> set (map doc_id ds) \<longrightarrow>
      (\<exists>cat1 cat2.
         createCollection cat ''test'' ''values'' = (None, cat1) \<and>
         insert_all cat1 ''test'' ''values'' ds = (None, cat2) \<and>
         find_docs cat2 ''test'' ''values'' [] = ds \<and>
         length (find_docs cat2 ''test'' ''values'' []) = 5))
   \<and> (distinct (map doc_id ds) \<and> None \<notin> set (map doc_id ds) \<longrightarrow>
      (\<exists>cat'. TestEnvData spec_client ds tb cat = (Inr (), tb, cat') \<and>
         find_docs cat' ''test'' ''values'' [] = ds \<and>
         length (find_docs cat' ''test'' ''values'' []) = length ds))"
proof (intro conjI impI)
  assume h: "cat ''test'' = Some tables \<and> tables ''values'' = None \<and> length ds = 5 \<and>
    distinct (map doc_id ds) \<and> None \<notin> set (map doc_id ds)"
  then obtain cat1 where c1: "createCollection cat ''test'' ''values'' = (None, cat1)"
    using createCollection_ok by blast
  then have r1: "rows cat1 ''test'' ''values'' = []" by (rule rows_createCollection)
  with h have "distinct (map doc_id (rows cat1 ''test'' ''values'' @ ds))" by simp
  from insert_all_rows [OF this] h r1 obtain cat2
    where c2: "insert_all cat1 ''test'' ''values'' ds = (None, cat2)"
      and r2: "rows cat2 ''test'' ''values'' = ds" by auto
  from c1 c2 r2 h show "\<exists>cat1 cat2.
         createCollection cat ''test'' ''values'' = (None, cat1) \<and>
         insert_all cat1 ''test'' ''values'' ds = (None, cat2) \<and>
         find_docs cat2 ''test'' ''values'' [] = ds \<and>
         length (find_docs cat2 ''test'' ''values'' []) = 5"
    by (auto simp: find_all)
next
  assume "distinct (map doc_id ds) \<and> None \<notin> set (map doc_id ds)"
  then show "\<exists>cat'. TestEnvData spec_client ds tb cat = (Inr (), tb, cat') \<and>
         find_docs cat' ''test'' ''values'' [] = ds \<and>
         length (find_docs cat' ''test'' ''values'' []) = length ds"
    using TestEnvData_spec [of ds tb cat] by auto
qed

theorem five_documents_found_witness:
  "[''test'' \<mapsto> Map.empty] ''test'' = Some (Map.empty :: string \<rightharpoonup> document list)
   \<and> (Map.empty :: string \<rightharpoonup> document list) ''values'' = None
   \<and> length five_docs = 5 \<and> distinct (map doc_id five_docs)
   \<and> None \<notin> set (map doc_id five_docs)
   \<and> fst (createCollection [''test'' \<mapsto> Map.empty :: string \<rightharpoonup> document list] ''test'' ''values'')
       = None
   \<and> fst (insert_all (snd (createCollection [''test'' \<mapsto> Map.empty] ''test'' ''values''))
             ''test'' ''values'' five_docs) = None
   \<and> find_docs (snd (insert_all (snd (createCollection [''test'' \<mapsto> Map.empty] ''test'' ''values''))
                        ''test'' ''values'' five_docs)) ''test'' ''values'' [] = five_docs
   \<and> fst (TestEnvData spec_client five_docs (tb_new ''TestEnvData'') [''test'' \<mapsto> Map.empty])
       = Inr ()
   \<and> length (find_docs
         (snd (snd (TestEnvData spec_client five_docs (tb_new ''TestEnvData'')
                      [''test'' \<mapsto> Map.empty])))
         ''test'' ''values'' []) = 5"
proof -
  let ?cat = "[''test'' \<mapsto> Map.empty] :: document catalog"
  note ids = five_docs_ids
  from five_documents_found [of ?cat Map.empty five_docs "tb_new ''TestEnvData''", THEN conjunct1] ids
  obtain cat1 cat2 where a: "createCollection ?cat ''test'' ''values'' = (None, cat1)"
    "insert_all cat1 ''test'' ''values'' five_docs = (None, cat2)"
    "find_docs cat2 ''test'' ''values'' [] = five_docs"
    by auto
  from five_documents_found [of ?cat Map.empty five_docs "tb_new ''TestEnvData''", THEN conjunct2] ids
  obtain cat' where b:
    "TestEnvData spec_client five_docs (tb_new ''TestEnvData'') ?cat = (Inr (), tb_new ''TestEnvData'', cat')"
    "length (find_docs cat' ''test'' ''values'' []) = length five_docs"
    by auto
  from a b ids show ?thesis by simp
qed

text \<open>
  C9. \<open>SchemaName\<close> and \<open>TableName\<close> compute the same transformation (\<open>name_spec\<close>: lower
  the name, replace every \<open>/\<close> and every space with \<open>-\<close>): \<open>TableName\<close> always returns it,
  \<open>SchemaName\<close> returns it when it is shorter than 64 bytes and fails the test otherwise,
  so whenever \<open>SchemaName\<close> returns, \<open>TableName\<close> returns the identical string.
\<close>

theorem SchemaName_TableName_equiv:
  "fst (TableName m tb) = Inr (name_spec m (tb_Name tb))
   \<and> fst (SchemaName m tb) =
       (if length (name_spec m (tb_Name tb)) < 64 then Inr (name_spec m (tb_Name tb))
        else Inl FailNow)
   \<and> (\<forall>name. fst (SchemaName m tb) = Inr name \<longrightarrow>
         fst (TableName m tb) = Inr name \<and> name = name_spec m (tb_Name tb))"
  by (simp add: SchemaName_eq TableName_eq tb_FailNow_def)

theorem SchemaName_TableName_equiv_witness:
  "fst (SchemaName id (tb_new ''TestFoo/Bar Baz'')) = Inr ''testfoo-bar-baz''
   \<and> fst (TableName id (tb_new ''TestFoo/Bar Baz'')) = Inr ''testfoo-bar-baz''
   \<and> ''testfoo-bar-baz'' = name_spec id ''TestFoo/Bar Baz''"
proof -
  have run: "fst (SchemaName id (tb_new ''TestFoo/Bar Baz'')) = Inr ''testfoo-bar-baz''"
    by (simp add: name_eval)
  have nm: "tb_Name (tb_new ''TestFoo/Bar Baz'') = ''TestFoo/Bar Baz''"
    by (simp add: tb_new_def)
  from SchemaName_TableName_equiv [of id "tb_new ''TestFoo/Bar Baz''"] run nm
  show ?thesis by simp
qed

text \<open>
  C10. \<open>PoolConnString\<close> on a nil \<open>opts\<close> does what it does on the default options: it
  never panics on the nil pointer, and outside \<open>-short\<close> mode it returns the connection
  string of the privileged user \<open>postgres\<close>.
\<close>

theorem PoolConnString_nil:
  "PoolConnString short tb None = PoolConnString short tb (Some new_PoolOpts)
   \<and> (\<forall>m. fst (PoolConnString short tb None) \<noteq> Inl (Panic m))
   \<and> PoolConnString False tb None =
       (Inr ''postgres://postgres@127.0.0.1:5432/ferretdb?pool_min_conns=1'', tb)"
  by (simp add: PoolConnString_def new_PoolOpts_def tb_Skip_def)

end
